theory Spec2Isabelle
  imports Complex_Main "HOL-Library.AList"
begin

section \<open>Python and pandas values\<close>

text \<open>
  The three scripts under \<open>generator/\<close> work on pandas data frames read from CSV files.
  A cell is missing (\<open>NaN\<close>), a number or a text; a column (a pandas Series) carries its
  declared dtype and its cells in row order; a data frame is the ordered list of its named
  columns. Python strings are modelled by \<open>string\<close>, one \<open>char\<close> per Python character.
\<close>

datatype error = KeyError string | ZeroDivisionError | IndexError | ValueError

datatype cell = NaN | Num rat | Str string

datatype dtype = Int64 | Float64 | Bool | Object

record series =
  dtype :: dtype
  cells :: "cell list"

type_synonym dataframe = "(string \<times> series) list"

text \<open>\<open>pd.api.types.is_numeric_dtype\<close>: integer, float and bool dtypes are numeric.\<close>

fun is_numeric_dtype :: "dtype \<Rightarrow> bool" where
  "is_numeric_dtype Int64 = True"
| "is_numeric_dtype Float64 = True"
| "is_numeric_dtype Bool = True"
| "is_numeric_dtype Object = False"

text \<open>\<open>df.columns\<close>, \<open>len(df)\<close> (the number of rows) and \<open>df[col]\<close>, which raises KeyError.\<close>

definition columns :: "dataframe \<Rightarrow> string list" where
  "columns df = map fst df"

definition len_df :: "dataframe \<Rightarrow> nat" where
  "len_df df = (case df of [] \<Rightarrow> 0 | (c, s) # rest \<Rightarrow> length (cells s))"

definition getitem :: "dataframe \<Rightarrow> string \<Rightarrow> error + series" where
  "getitem df col = (case map_of df col of None \<Rightarrow> Inl (KeyError col) | Some s \<Rightarrow> Inr s)"

text \<open>\<open>Series.dropna()\<close>, \<open>Series.nunique()\<close> (distinct non-missing values) and
  \<open>Series.isnull().sum()\<close>.\<close>

definition dropna :: "series \<Rightarrow> cell list" where
  "dropna s = filter (\<lambda>v. v \<noteq> NaN) (cells s)"

definition nunique :: "series \<Rightarrow> nat" where
  "nunique s = length (remdups (dropna s))"

definition isnull_sum :: "series \<Rightarrow> nat" where
  "isnull_sum s = length (filter (\<lambda>v. v = NaN) (cells s))"

text \<open>
  Python's true division of two ints: ZeroDivisionError on a zero divisor. The quotient is
  kept exact, and the thresholds 0.9 and 0.5 it is compared with are read as 9/10 and 1/2:
  Python rounds the quotient to the nearest double, and for a divisor below \<open>10^15\<close> (a
  frame of fewer rows than that) no quotient of two ints lies between a threshold and the
  doubles next to it, so the comparisons of the scripts give the same answers.
\<close>

definition py_truediv :: "nat \<Rightarrow> nat \<Rightarrow> error + real" where
  "py_truediv a b = (if b = 0 then Inl ZeroDivisionError else Inr (real a / real b))"

text \<open>\<open>str.lower()\<close> on ASCII letters and the substring test \<open>needle in hay\<close>.\<close>

definition lower_char :: "char \<Rightarrow> char" where
  "lower_char c =
     (case map_of (zip ''ABCDEFGHIJKLMNOPQRSTUVWXYZ'' ''abcdefghijklmnopqrstuvwxyz'') c of
        None \<Rightarrow> c | Some l \<Rightarrow> l)"

definition lower :: "string \<Rightarrow> string" where
  "lower s = map lower_char s"

fun startswith :: "string \<Rightarrow> string \<Rightarrow> bool" where
  "startswith hay [] = True"
| "startswith [] (n # ns) = False"
| "startswith (h # hs) (n # ns) = (h = n \<and> startswith hs ns)"

fun str_in :: "string \<Rightarrow> string \<Rightarrow> bool" where
  "str_in needle [] = (needle = [])"
| "str_in needle (h # hs) = (startswith (h # hs) needle \<or> str_in needle hs)"

section \<open>The column profiler: \<open>analyze_column\<close>\<close>

text \<open>
  The analysis of a column is a Python dict. Its five fixed keys are the fields of the
  record; the boolean keys that the two branches add (\<open>is_numeric\<close>, \<open>can_sum\<close>, ...) are
  the map \<open>flags\<close>, so that a key that was never set is absent, as in the dict.
\<close>

record analysis =
  name :: string
  a_dtype :: dtype
  unique_count :: nat
  null_count :: nat
  sample_values :: "cell list"
  flags :: "string \<rightharpoonup> bool"

text \<open>\<open>analysis.get(req, False)\<close> for a flag name \<open>req\<close>.\<close>

definition get_flag :: "analysis \<Rightarrow> string \<Rightarrow> bool" where
  "get_flag a req = (case flags a req of None \<Rightarrow> False | Some b \<Rightarrow> b)"

text \<open>An assignment \<open>analysis[key] = b\<close> of a flag.\<close>

definition set_flag :: "(string \<rightharpoonup> bool) \<Rightarrow> string \<Rightarrow> bool \<Rightarrow> (string \<rightharpoonup> bool)" where
  "set_flag f key b = f(key \<mapsto> b)"

text \<open>
  The numeric branch of \<open>analyze_column\<close>. The two scripts differ only in the name of the
  ranking flag (\<open>can_rank\<close> in pass 1, \<open>can_sort\<close> in v2), which is the first argument.
\<close>

definition numeric_flags :: "string \<Rightarrow> string \<Rightarrow> real \<Rightarrow> (string \<rightharpoonup> bool)" where
  "numeric_flags rank col unique_ratio =
     (let f = set_flag Map.empty ''is_numeric'' True;
          f = set_flag f ''can_sum'' True;
          f = set_flag f ''can_mean'' True;
          f = set_flag f rank True
      in if unique_ratio > 9 / 10 \<or> str_in ''id'' (lower col) \<or> str_in ''number'' (lower col)
         then let f = set_flag f ''is_identifier'' True;
                  f = set_flag f ''can_sum'' False;
                  f = set_flag f ''can_mean'' False
              in f
         else f)"

text \<open>The categorical branch of pass 1 and of v2 (which adds \<open>can_filter\<close>).\<close>

definition categorical_flags :: "real \<Rightarrow> (string \<rightharpoonup> bool)" where
  "categorical_flags unique_ratio =
     (let f = set_flag Map.empty ''is_numeric'' False;
          f = set_flag f ''is_categorical'' True;
          f = set_flag f ''can_group_by'' (unique_ratio < 1 / 2);
          f = set_flag f ''can_value_count'' True
      in f)"

definition categorical_flags_v2 :: "real \<Rightarrow> (string \<rightharpoonup> bool)" where
  "categorical_flags_v2 unique_ratio =
     (let f = set_flag Map.empty ''is_numeric'' False;
          f = set_flag f ''is_categorical'' True;
          f = set_flag f ''can_group_by'' (unique_ratio < 1 / 2);
          f = set_flag f ''can_value_count'' True;
          f = set_flag f ''can_filter'' True
      in f)"

text \<open>
  \<open>generate_question_bank.analyze_column\<close> (pass 1). The dict literal is evaluated first
  (\<open>df[col]\<close> may raise KeyError), then the ratio (ZeroDivisionError when the frame has no
  rows), then the flags are assigned in the order of the source.
\<close>

definition analyze_column :: "dataframe \<Rightarrow> string \<Rightarrow> error + analysis" where
  "analyze_column df col =
     (case getitem df col of
        Inl e \<Rightarrow> Inl e
      | Inr s \<Rightarrow>
         (case py_truediv (nunique s) (len_df df) of
            Inl e \<Rightarrow> Inl e
          | Inr unique_ratio \<Rightarrow>
              Inr \<lparr>name = col, a_dtype = dtype s, unique_count = nunique s,
                   null_count = isnull_sum s, sample_values = take 5 (dropna s),
                   flags = (if is_numeric_dtype (dtype s)
                            then numeric_flags ''can_rank'' col unique_ratio
                            else categorical_flags unique_ratio)\<rparr>))"

text \<open>\<open>generate_questions_v2.analyze_column\<close>: ten sample values instead of five.\<close>

definition analyze_column_v2 :: "dataframe \<Rightarrow> string \<Rightarrow> error + analysis" where
  "analyze_column_v2 df col =
     (case getitem df col of
        Inl e \<Rightarrow> Inl e
      | Inr s \<Rightarrow>
         (case py_truediv (nunique s) (len_df df) of
            Inl e \<Rightarrow> Inl e
          | Inr unique_ratio \<Rightarrow>
              Inr \<lparr>name = col, a_dtype = dtype s, unique_count = nunique s,
                   null_count = isnull_sum s, sample_values = take 10 (dropna s),
                   flags = (if is_numeric_dtype (dtype s)
                            then numeric_flags ''can_sort'' col unique_ratio
                            else categorical_flags_v2 unique_ratio)\<rparr>))"

section \<open>Library functions and string formatting\<close>

text \<open>
  What the scripts call but do not define is a parameter of the model, collected in one
  record:
  \<^item> \<open>eval_code df code\<close> is the built-in \<open>eval(code)\<close> with \<open>df\<close> in scope: either the
    message \<open>str(e)\<close> of the exception raised (\<open>Inl\<close>), or the value returned, of which the
    scripts use the class, the length and the printed form \<open>str(result)\<close>;
  \<^item> \<open>str_num\<close> is \<open>str\<close> on a number;
  \<^item> \<open>median_round2 s\<close> is \<open>str(round(s.median(), 2))\<close>.
\<close>

datatype kind = DataFrame | Series | Other

record evaluated =
  kind :: kind
  len :: nat
  printed :: string

record pylib =
  eval_code :: "dataframe \<Rightarrow> string \<Rightarrow> string + evaluated"
  str_num :: "rat \<Rightarrow> string"
  median_round2 :: "series \<Rightarrow> string"

text \<open>
  The \<open>random\<close> module is a global generator with a hidden state. The state is threaded
  through the model, and the generator itself is the function \<open>randbelow\<close>: one draw below
  \<open>n\<close> in a state, with the state that follows.
\<close>

type_synonym 'r randbelow = "'r \<Rightarrow> nat \<Rightarrow> nat \<times> 'r"

text \<open>\<open>str(value)\<close> of a cell, as \<open>str.format\<close> and f-strings apply it.\<close>

definition py_str :: "pylib \<Rightarrow> cell \<Rightarrow> string" where
  "py_str L v = (case v of NaN \<Rightarrow> ''nan'' | Num x \<Rightarrow> str_num L x | Str s \<Rightarrow> s)"

text \<open>
  \<open>template.format(**kw)\<close> for the format strings of the catalogs: text is copied, a
  replacement field \<open>{key}\<close> is replaced by the keyword argument \<open>key\<close> (KeyError when it
  was not passed), and an unmatched brace is a ValueError. The second argument is the
  scanner's state: outside a field, or inside one with the characters of the key read so
  far, last first. Keyword arguments that no field names are ignored, and a value that is
  put in is not scanned again. The catalogs use no doubled braces, conversions or format
  specs.
\<close>

fun format_from :: "(string \<times> string) list \<Rightarrow> string option \<Rightarrow> string \<Rightarrow> error + string" where
  "format_from kw None [] = Inr []"
| "format_from kw (Some key) [] = Inl ValueError"
| "format_from kw None (c # cs) =
     (if c = CHR ''{'' then format_from kw (Some []) cs
      else if c = CHR ''}'' then Inl ValueError
      else (case format_from kw None cs of Inl e \<Rightarrow> Inl e | Inr out \<Rightarrow> Inr (c # out)))"
| "format_from kw (Some key) (c # cs) =
     (if c = CHR ''}''
      then (case map_of kw (rev key) of
              None \<Rightarrow> Inl (KeyError (rev key))
            | Some v \<Rightarrow> (case format_from kw None cs of Inl e \<Rightarrow> Inl e | Inr out \<Rightarrow> Inr (v @ out)))
      else format_from kw (Some (c # key)) cs)"

definition format :: "string \<Rightarrow> (string \<times> string) list \<Rightarrow> error + string" where
  "format fmt kw = format_from kw None fmt"

text \<open>
  \<open>s.replace(old, new)\<close> for a non-empty \<open>old\<close>, scanning from the left; the counter is the
  number of characters of a match still to be dropped. \<open>s.rstrip(chars)\<close>.
\<close>

fun replace_from :: "string \<Rightarrow> string \<Rightarrow> nat \<Rightarrow> string \<Rightarrow> string" where
  "replace_from old new k [] = []"
| "replace_from old new (Suc k) (c # cs) = replace_from old new k cs"
| "replace_from old new 0 (c # cs) =
     (if startswith (c # cs) old then new @ replace_from old new (length old - 1) cs
      else c # replace_from old new 0 cs)"

definition replace :: "string \<Rightarrow> string \<Rightarrow> string \<Rightarrow> string" where
  "replace s old new = replace_from old new 0 s"

definition rstrip :: "string \<Rightarrow> string \<Rightarrow> string" where
  "rstrip s chars = rev (dropWhile (\<lambda>c. c \<in> set chars) (rev s))"

text \<open>\<open>str(n)\<close> of a non-negative int.\<close>

definition digit_char :: "nat \<Rightarrow> char" where
  "digit_char d = ''0123456789'' ! d"

fun str_nat :: "nat \<Rightarrow> string" where
  "str_nat n = (if n < 10 then [digit_char n] else str_nat (n div 10) @ [digit_char (n mod 10)])"

declare str_nat.simps [simp del]

section \<open>Pass 1: \<open>generate_question_bank\<close>\<close>

subsection \<open>The template catalog\<close>

text \<open>
  A catalog entry is a dict. Every entry has the key \<open>requires\<close>; \<open>requires_other\<close> is
  present for the two-column templates only, and the \<open>needs_...\<close> keys are read with
  \<open>template.get\<close>, so an absent key reads as false. The keys \<open>id\<close> and \<open>difficulty\<close> are the fields \<open>t_id\<close> and \<open>t_difficulty\<close>.
  One record serves both catalogs; pass 1 has no \<open>concepts\<close> and none of the last three
  flags.
\<close>

record question_template =
  t_id :: string
  requires :: "string list"
  requires_other :: "string list option"
  template :: string
  code_template :: string
  t_difficulty :: nat
  needs_value :: bool
  needs_substring :: bool
  needs_numeric_value :: bool
  needs_two_values :: bool
  use_value_in_question :: bool
  concepts :: "string list"

definition entry :: "string \<Rightarrow> string list \<Rightarrow> string \<Rightarrow> string \<Rightarrow> nat \<Rightarrow> question_template" where
  "entry i req txt cd d =
     \<lparr>t_id = i, requires = req, requires_other = None, template = txt, code_template = cd,
      t_difficulty = d, needs_value = False, needs_substring = False,
      needs_numeric_value = False, needs_two_values = False, use_value_in_question = False,
      concepts = []\<rparr>"

definition generate_question_templates :: "question_template list" where
  "generate_question_templates =
    [entry ''value_counts_basic'' [''can_value_count'']
       ''How many {entity}s are there for each {column}?''
       ''df['{column}'].value_counts()'' 1,
     entry ''value_counts_top'' [''can_value_count'']
       ''What are the top 5 most common {column}s?''
       ''df['{column}'].value_counts().head(5)'' 1,
     entry ''unique_count'' [''is_categorical'']
       ''How many unique {column}s are there?''
       ''df['{column}'].nunique()'' 1,
     entry ''mean_simple'' [''can_mean'']
       ''What is the average {column}?''
       ''df['{column}'].mean()'' 1,
     entry ''sum_simple'' [''can_sum'']
       ''What is the total {column} across all {entity}s?''
       ''df['{column}'].sum()'' 1,
     entry ''max_value'' [''can_rank'']
       ''What is the maximum {column}?''
       ''df['{column}'].max()'' 1,
     entry ''nlargest'' [''can_rank'']
       ''Find the top 5 {entity}s by {column}''
       ''df.nlargest(5, '{column}')'' 1,
     (entry ''groupby_count'' [''can_group_by'']
       ''How many {entity}s does each {column} have?''
       ''df.groupby('{column}').size()'' 2)
       \<lparr>requires_other := Some [''any'']\<rparr>,
     (entry ''groupby_mean'' [''can_group_by'']
       ''What is the average {other_column} for each {column}?''
       ''df.groupby('{column}')['{other_column}'].mean()'' 2)
       \<lparr>requires_other := Some [''can_mean'']\<rparr>,
     (entry ''groupby_sum'' [''can_group_by'']
       ''What is the total {other_column} for each {column}?''
       ''df.groupby('{column}')['{other_column}'].sum()'' 2)
       \<lparr>requires_other := Some [''can_sum'']\<rparr>,
     (entry ''groupby_max_category'' [''can_group_by'']
       ''Which {column} has the highest total {other_column}?''
       ''df.groupby('{column}')['{other_column}'].sum().idxmax()'' 2)
       \<lparr>requires_other := Some [''can_sum'']\<rparr>,
     (entry ''filter_equals'' [''is_categorical'']
       ''How many {entity}s have {column} equal to \"{value}\"?''
       ''len(df[df['{column}'] == '{value}'])'' 1)
       \<lparr>needs_value := True\<rparr>,
     (entry ''filter_greater'' [''is_numeric'']
       ''How many {entity}s have {column} greater than {value}?''
       ''len(df[df['{column}'] > {value}])'' 1)
       \<lparr>needs_value := True\<rparr>,
     (entry ''string_contains'' [''is_categorical'']
       ''Find all {entity}s where {column} contains \"{substring}\"''
       ''df[df['{column}'].str.contains('{substring}', na=False)]'' 2)
       \<lparr>needs_substring := True\<rparr>]"

subsection \<open>Question records and execution\<close>

text \<open>
  A question of pass 1 is the dict \<open>q\<close>. It is built with the keys of \<open>binding\<close>; the
  \<open>try\<close> block then adds \<open>result\<close> and \<open>status\<close>, and the dict is appended to \<open>questions\<close>.
\<close>

record binding =
  dataset :: string
  template_id :: string
  column :: string
  other_column :: "string option"
  difficulty :: nat
  question :: string
  code :: string

record raw_question = binding +
  result :: string
  status :: string

definition with_outcome :: "binding \<Rightarrow> string \<Rightarrow> string \<Rightarrow> raw_question" where
  "with_outcome q res st =
     \<lparr>dataset = dataset q, template_id = template_id q, column = column q,
      other_column = other_column q, difficulty = difficulty q, question = question q,
      code = code q, result = res, status = st\<rparr>"

definition binding_of :: "raw_question \<Rightarrow> binding" where
  "binding_of q =
     \<lparr>dataset = dataset q, template_id = template_id q, column = column q,
      other_column = other_column q, difficulty = difficulty q, question = question q,
      code = code q\<rparr>"

text \<open>
  The \<open>try\<close>/\<open>except\<close> around \<open>eval(q['code'])\<close>: on success the printed result cut to 200
  characters and status \<open>valid\<close>, on an exception \<open>Error: \<close> and its message and status
  \<open>error\<close>.
\<close>

definition execute :: "pylib \<Rightarrow> dataframe \<Rightarrow> binding \<Rightarrow> raw_question" where
  "execute L df q =
     (case eval_code L df (code q) of
        Inr res \<Rightarrow> with_outcome q (take 200 (printed res)) ''valid''
      | Inl msg \<Rightarrow> with_outcome q (''Error: '' @ msg) ''error'')"

subsection \<open>\<open>generate_questions_for_dataset\<close>\<close>

text \<open>
  A \<open>for\<close> loop whose body appends questions to the output list and may raise: the
  questions of the iterations in order, or the first exception.
\<close>

fun collect :: "('a \<Rightarrow> error + 'b list) \<Rightarrow> 'a list \<Rightarrow> error + 'b list" where
  "collect body [] = Inr []"
| "collect body (x # xs) =
     (case body x of
        Inl e \<Rightarrow> Inl e
      | Inr ys \<Rightarrow> (case collect body xs of Inl e \<Rightarrow> Inl e | Inr zs \<Rightarrow> Inr (ys @ zs)))"

text \<open>
  \<open>column_analysis\<close> is a dict filled in the order of \<open>df.columns\<close>: an association list
  in insertion order, a repeated key keeping its place. The profiler is an argument, as the
  two scripts each have their own.
\<close>

fun analyze_all :: "(dataframe \<Rightarrow> string \<Rightarrow> error + analysis) \<Rightarrow> dataframe \<Rightarrow> string list \<Rightarrow>
    (string \<times> analysis) list \<Rightarrow> error + (string \<times> analysis) list" where
  "analyze_all profile df [] column_analysis = Inr column_analysis"
| "analyze_all profile df (col # cols) column_analysis =
     (case profile df col of
        Inl e \<Rightarrow> Inl e
      | Inr a \<Rightarrow> analyze_all profile df cols (AList.update col a column_analysis))"

text \<open>The entity a row stands for: a crude singular of the file name, with six overrides.\<close>

definition entity_type :: "string \<Rightarrow> string" where
  "entity_type dataset_name =
     (if dataset_name = ''powerplants.csv'' then ''power plant''
      else if dataset_name = ''motorcycles.csv'' then ''motorcycle''
      else if dataset_name = ''foods.csv'' then ''pet food product''
      else if dataset_name = ''grammys.csv'' then ''Grammy nomination''
      else if dataset_name = ''race-places.csv'' then ''race result''
      else if dataset_name = ''tickets-tiny.csv'' then ''traffic stop''
      else rstrip (replace dataset_name ''.csv'' []) ''s'')"

text \<open>The f-string \<open>f"'{value}'"\<close>.\<close>

definition quoted :: "string \<Rightarrow> string" where
  "quoted s = [CHR 0x27] @ s @ [CHR 0x27]"

text \<open>
  The single-column branch up to the \<open>try\<close> block: \<open>Inr None\<close> is \<open>continue\<close>. A template
  that needs a value takes the first sample value; one that needs a substring takes the
  first three characters of the first sample value when that is a \<open>str\<close>.
\<close>

definition bind_single :: "pylib \<Rightarrow> string \<Rightarrow> string \<Rightarrow> string \<Rightarrow> analysis \<Rightarrow>
    question_template \<Rightarrow> error + binding option" where
  "bind_single L dataset_name entity col a t =
     (let q = \<lparr>dataset = dataset_name, template_id = t_id t, column = col,
                other_column = None, difficulty = t_difficulty t, question = [], code = []\<rparr>
      in
      if needs_value t then
        (case sample_values a of
           [] \<Rightarrow> Inr None
         | v # vs \<Rightarrow>
            (case format (template t)
                    [(''entity'', entity), (''column'', col), (''value'', py_str L v)] of
               Inl e \<Rightarrow> Inl e
             | Inr qtext \<Rightarrow>
                (case flags a ''is_numeric'' of
                   None \<Rightarrow> Inl (KeyError ''is_numeric'')
                 | Some num \<Rightarrow>
                    (case format (code_template t)
                            [(''column'', col),
                             (''value'', if num then py_str L v else quoted (py_str L v))] of
                       Inl e \<Rightarrow> Inl e
                     | Inr c \<Rightarrow> Inr (Some (q\<lparr>question := qtext, code := c\<rparr>))))))
      else if needs_substring t then
        (case sample_values a of
           Str s # vs \<Rightarrow>
            (let substring = take 3 s in
             case format (template t)
                    [(''entity'', entity), (''column'', col), (''substring'', substring)] of
               Inl e \<Rightarrow> Inl e
             | Inr qtext \<Rightarrow>
                (case format (code_template t) [(''column'', col), (''substring'', substring)] of
                   Inl e \<Rightarrow> Inl e
                 | Inr c \<Rightarrow> Inr (Some (q\<lparr>question := qtext, code := c\<rparr>))))
         | _ \<Rightarrow> Inr None)
      else
        (case format (template t) [(''entity'', entity), (''column'', col)] of
           Inl e \<Rightarrow> Inl e
         | Inr qtext \<Rightarrow>
            (case format (code_template t) [(''column'', col)] of
               Inl e \<Rightarrow> Inl e
             | Inr c \<Rightarrow> Inr (Some (q\<lparr>question := qtext, code := c\<rparr>)))))"

text \<open>
  The body of the inner loop over the other columns, for a two-column template with
  \<open>requires_other = reqs\<close>. The requirement is read with \<open>other_analysis.get(req, False)\<close>,
  also for the name \<open>any\<close>, which is no key of an analysis.
\<close>

definition other_column_question :: "pylib \<Rightarrow> dataframe \<Rightarrow> string \<Rightarrow> string \<Rightarrow>
    string \<Rightarrow> question_template \<Rightarrow> string list \<Rightarrow> string \<times> analysis \<Rightarrow> error + raw_question list" where
  "other_column_question L df dataset_name entity col t reqs other =
     (case other of (other_col, other_analysis) \<Rightarrow>
      if other_col = col then Inr []
      else if \<not> list_ex (get_flag other_analysis) reqs then Inr []
      else
        (case format (template t)
                [(''entity'', entity), (''column'', col), (''other_column'', other_col)] of
           Inl e \<Rightarrow> Inl e
         | Inr qtext \<Rightarrow>
            (case format (code_template t) [(''column'', col), (''other_column'', other_col)] of
               Inl e \<Rightarrow> Inl e
             | Inr c \<Rightarrow>
                Inr [execute L df
                      \<lparr>dataset = dataset_name, template_id = t_id t, column = col,
                       other_column = Some other_col, difficulty = t_difficulty t,
                       question = qtext, code = c\<rparr>])))"

text \<open>The body of the loop over the templates, for the column \<open>col\<close> with its analysis.\<close>

definition questions_for_template :: "pylib \<Rightarrow> dataframe \<Rightarrow> string \<Rightarrow> string \<Rightarrow>
    (string \<times> analysis) list \<Rightarrow> string \<Rightarrow> analysis \<Rightarrow> question_template \<Rightarrow>
    error + raw_question list" where
  "questions_for_template L df dataset_name entity column_analysis col a t =
     (if \<not> list_all (get_flag a) (requires t) then Inr []
      else
        (case requires_other t of
           None \<Rightarrow>
            (case bind_single L dataset_name entity col a t of
               Inl e \<Rightarrow> Inl e
             | Inr None \<Rightarrow> Inr []
             | Inr (Some q) \<Rightarrow> Inr [execute L df q])
         | Some reqs \<Rightarrow>
            collect (other_column_question L df dataset_name entity col t reqs)
              column_analysis))"

definition questions_for_column :: "pylib \<Rightarrow> dataframe \<Rightarrow> string \<Rightarrow> string \<Rightarrow>
    (string \<times> analysis) list \<Rightarrow> string \<times> analysis \<Rightarrow> error + raw_question list" where
  "questions_for_column L df dataset_name entity column_analysis ca =
     collect (questions_for_template L df dataset_name entity column_analysis (fst ca) (snd ca))
       generate_question_templates"

text \<open>
  \<open>generate_questions_for_dataset\<close>, from the frame that \<open>pd.read_csv(csv_path)\<close> returned.
\<close>

definition generate_questions_for_dataset :: "pylib \<Rightarrow> dataframe \<Rightarrow> string \<Rightarrow>
    error + raw_question list" where
  "generate_questions_for_dataset L df dataset_name =
     (case analyze_all analyze_column df (columns df) [] of
        Inl e \<Rightarrow> Inl e
      | Inr column_analysis \<Rightarrow>
          collect (questions_for_column L df dataset_name (entity_type dataset_name)
                     column_analysis)
            column_analysis)"

section \<open>The v2 generator: \<open>generate_questions_v2\<close>\<close>

subsection \<open>The template catalog\<close>

definition generate_question_templates_v2 :: "question_template list" where
  "generate_question_templates_v2 =
    [(entry ''filter_show_all'' [''can_filter'']
       ''Show all {entity}s where {column} is \"{value}\"''
       ''df[df['{column}'] == '{value}']'' 1)
       \<lparr>needs_value := True, concepts := [''filtering'']\<rparr>,
     (entry ''filter_show_all_simple'' [''can_filter'']
       ''Show all {value} {entity}s''
       ''df[df['{column}'] == '{value}']'' 1)
       \<lparr>needs_value := True, concepts := [''filtering''], use_value_in_question := True\<rparr>,
     (entry ''filter_count'' [''can_filter'']
       ''How many {entity}s have {column} equal to \"{value}\"?''
       ''(df['{column}'] == '{value}').sum()'' 1)
       \<lparr>needs_value := True, concepts := [''boolean indexing'', ''sum'']\<rparr>,
     (entry ''filter_numeric_greater'' [''is_numeric'']
       ''How many {entity}s have {column} greater than {value}?''
       ''(df['{column}'] > {value}).sum()'' 1)
       \<lparr>needs_numeric_value := True, concepts := [''boolean indexing'', ''sum'']\<rparr>,
     (entry ''sort_highest'' [''can_sort'']
       ''Which {entity} has the highest {column}?''
       ''df.sort_values('{column}', ascending=False).head(1)'' 1)
       \<lparr>concepts := [''sort_values'', ''head'']\<rparr>,
     (entry ''sort_lowest'' [''can_sort'']
       ''What is the {entity} with the lowest {column}?''
       ''df.sort_values('{column}').head(1)'' 1)
       \<lparr>concepts := [''sort_values'', ''head'']\<rparr>,
     (entry ''sort_top_5'' [''can_sort'']
       ''Show the 5 {entity}s with the highest {column}''
       ''df.sort_values('{column}', ascending=False).head(5)'' 1)
       \<lparr>concepts := [''sort_values'', ''head'']\<rparr>,
     (entry ''value_counts_percentage'' [''can_value_count'']
       ''What percentage of {entity}s are in each {column} category?''
       ''df['{column}'].value_counts(normalize=True)'' 1)
       \<lparr>concepts := [''value_counts'', ''normalize'']\<rparr>,
     (entry ''value_counts_basic'' [''can_value_count'']
       ''How many {entity}s are there for each {column}?''
       ''df['{column}'].value_counts()'' 1)
       \<lparr>concepts := [''value_counts'']\<rparr>,
     (entry ''value_counts_most_common'' [''can_value_count'']
       ''What is the most common {column}?''
       ''df['{column}'].value_counts().head(1)'' 1)
       \<lparr>concepts := [''value_counts'', ''head'']\<rparr>,
     (entry ''mean_simple'' [''can_mean'']
       ''What is the average {column}?''
       ''df['{column}'].mean()'' 1)
       \<lparr>concepts := [''mean'']\<rparr>,
     (entry ''sum_simple'' [''can_sum'']
       ''What is the total {column} across all {entity}s?''
       ''df['{column}'].sum()'' 1)
       \<lparr>concepts := [''sum'']\<rparr>,
     (entry ''count_multiple_values'' [''can_filter'']
       ''How many {entity}s are either {value1} or {value2}?''
       ''df['{column}'].isin(['{value1}', '{value2}']).sum()'' 2)
       \<lparr>needs_two_values := True, concepts := [''isin'', ''sum'']\<rparr>,
     (entry ''groupby_count'' [''can_group_by'']
       ''How many {entity}s does each {column} have?''
       ''df.groupby('{column}').size()'' 2)
       \<lparr>concepts := [''groupby'', ''size'']\<rparr>,
     (entry ''groupby_mean'' [''can_group_by'']
       ''What is the average {other_column} by {column}?''
       ''df.groupby('{column}')['{other_column}'].mean()'' 2)
       \<lparr>requires_other := Some [''can_mean''], concepts := [''groupby'', ''mean'']\<rparr>,
     (entry ''groupby_sum_sorted'' [''can_group_by'']
       ''What is the total {other_column} by {column}?''
       ''df.groupby('{column}')['{other_column}'].sum().sort_values(ascending=False)'' 2)
       \<lparr>requires_other := Some [''can_sum''],
        concepts := [''groupby'', ''sum'', ''sort_values'']\<rparr>]"

subsection \<open>Value counts and random selection\<close>

text \<open>
  \<open>Series.value_counts()\<close>: the distinct non-missing values with their counts, most
  frequent first, values of equal count in the order of their first appearance.
  \<open>common_values n s\<close> is \<open>value_counts[value_counts > 1].index.tolist()[:n]\<close>.
\<close>

definition unique :: "'a list \<Rightarrow> 'a list" where
  "unique xs = rev (remdups (rev xs))"

definition value_counts :: "series \<Rightarrow> (cell \<times> nat) list" where
  "value_counts s =
     sort_key (\<lambda>p. - int (snd p)) (map (\<lambda>v. (v, count_list (dropna s) v)) (unique (dropna s)))"

definition common_values :: "nat \<Rightarrow> series \<Rightarrow> cell list" where
  "common_values n s = take n (map fst (filter (\<lambda>p. snd p > 1) (value_counts s)))"

text \<open>
  \<open>random.choice(seq)\<close> is \<open>seq[randbelow(len(seq))]\<close>. \<open>random.sample(population, 2)\<close> on
  a population of at most 21 elements copies it to a pool, draws an index below \<open>n\<close>, moves
  the last pool element into the vacancy and draws an index below \<open>n - 1\<close>. An index out
  of range is an IndexError.
\<close>

definition random_choice :: "'r randbelow \<Rightarrow> 'r \<Rightarrow> 'a list \<Rightarrow> error + ('a \<times> 'r)" where
  "random_choice rb r seq =
     (case rb r (length seq) of (j, r') \<Rightarrow>
        if j < length seq then Inr (seq ! j, r') else Inl IndexError)"

definition random_sample2 :: "'r randbelow \<Rightarrow> 'r \<Rightarrow> 'a list \<Rightarrow> error + (('a \<times> 'a) \<times> 'r)" where
  "random_sample2 rb r population =
     (let n = length population in
      case rb r n of (j1, r1) \<Rightarrow>
        if \<not> j1 < n then Inl IndexError
        else
          (let pool = population[j1 := population ! (n - 1)] in
           case rb r1 (n - 1) of (j2, r2) \<Rightarrow>
             if \<not> j2 < n then Inl IndexError
             else Inr ((population ! j1, pool ! j2), r2)))"

subsection \<open>Question records\<close>

text \<open>
  A question of v2 is a dict with the keys \<open>id\<close>, \<open>dataset\<close>, \<open>dataPreview\<close>,
  \<open>columnDescriptions\<close>, \<open>context\<close>, \<open>question\<close>, \<open>canonicalAnswer\<close> (with \<open>code\<close> and
  \<open>result\<close>), \<open>difficulty\<close>, \<open>concepts\<close> and \<open>hint\<close>; the fields carry the prefix \<open>p_\<close>.
  \<open>dataPreview\<close> is the list of the preview columns followed by the preview rows: the pair of
  the header and the rows.
\<close>

record pool_question =
  p_id :: string
  p_dataset :: string
  p_dataPreview :: "string list \<times> cell list list"
  p_columnDescriptions :: "(string \<times> string) list"
  p_context :: string
  p_question :: string
  p_code :: string
  p_result :: string
  p_difficulty :: nat
  p_concepts :: "string list"
  p_hint :: string

definition create_column_description :: "string \<Rightarrow> cell list \<Rightarrow> string" where
  "create_column_description col_name sample =
     (if str_in ''name'' (lower col_name) then ''Name identifier''
      else if str_in ''date'' (lower col_name) \<or> str_in ''year'' (lower col_name)
        then ''Date/time information''
      else if str_in ''price'' (lower col_name) \<or> str_in ''cost'' (lower col_name)
        then ''Price in dollars''
      else if str_in ''count'' (lower col_name) \<or> str_in ''number'' (lower col_name)
        then ''Count or quantity''
      else if str_in ''id'' (lower col_name) then ''Unique identifier''
      else if str_in ''status'' (lower col_name) then ''Current status''
      else if str_in ''type'' (lower col_name) \<or> str_in ''category'' (lower col_name)
        then ''Category or type''
      else ''Data field'')"

definition entity_type_v2 :: "string \<Rightarrow> string" where
  "entity_type_v2 dataset_name =
     (case map_of
        [(''powerplants.csv'', ''power plant''), (''motorcycles.csv'', ''motorcycle''),
         (''foods.csv'', ''pet food product''), (''grammys.csv'', ''Grammy nomination''),
         (''race-places.csv'', ''race result''), (''tickets-tiny.csv'', ''traffic stop''),
         (''crops.csv'', ''crop''), (''wreckers.csv'', ''tow truck''),
         (''overflows.csv'', ''overflow event''), (''forces.csv'', ''force measurement''),
         (''injurydat-cleaned.csv'', ''injury report''),
         (''township-154.csv'', ''township record''),
         (''boston_house_prices.csv'', ''house''), (''msft.csv'', ''stock trading day'')]
        dataset_name of
        None \<Rightarrow> ''record'' | Some e \<Rightarrow> e)"

text \<open>\<open>sep.join(xs)\<close> and the format spec \<open>03d\<close>.\<close>

fun join :: "string \<Rightarrow> string list \<Rightarrow> string" where
  "join sep [] = []"
| "join sep [x] = x"
| "join sep (x # y # ys) = x @ sep @ join sep (y # ys)"

definition zero_pad3 :: "nat \<Rightarrow> string" where
  "zero_pad3 n = replicate (3 - length (str_nat n)) (CHR ''0'') @ str_nat n"

subsection \<open>\<open>generate_questions_for_dataset\<close> of v2\<close>

text \<open>
  The question text and the code of a single-column template, once its literals are
  chosen: for a sampled value, for the median as threshold, for two sampled values, and for
  a template without literals. In the first, \<open>analysis['is_numeric']\<close> is read (both
  branches of that test format the code alike).
\<close>

definition value_question :: "pylib \<Rightarrow> string \<Rightarrow> string \<Rightarrow> analysis \<Rightarrow> question_template \<Rightarrow>
    cell \<Rightarrow> error + (string \<times> string)" where
  "value_question L entity col a t v =
     (case (if use_value_in_question t
            then format (template t) [(''entity'', entity), (''value'', py_str L v)]
            else format (template t)
                   [(''entity'', entity), (''column'', col), (''value'', py_str L v)]) of
        Inl e \<Rightarrow> Inl e
      | Inr qtext \<Rightarrow>
         (case flags a ''is_numeric'' of
            None \<Rightarrow> Inl (KeyError ''is_numeric'')
          | Some num \<Rightarrow>
             (case format (code_template t) [(''column'', col), (''value'', py_str L v)] of
                Inl e \<Rightarrow> Inl e
              | Inr c \<Rightarrow> Inr (qtext, c))))"

definition threshold_question :: "pylib \<Rightarrow> string \<Rightarrow> string \<Rightarrow> question_template \<Rightarrow> series \<Rightarrow>
    error + (string \<times> string)" where
  "threshold_question L entity col t s =
     (case format (template t)
             [(''entity'', entity), (''column'', col), (''value'', median_round2 L s)] of
        Inl e \<Rightarrow> Inl e
      | Inr qtext \<Rightarrow>
         (case format (code_template t) [(''column'', col), (''value'', median_round2 L s)] of
            Inl e \<Rightarrow> Inl e
          | Inr c \<Rightarrow> Inr (qtext, c)))"

definition two_values_question :: "pylib \<Rightarrow> string \<Rightarrow> string \<Rightarrow> question_template \<Rightarrow>
    cell \<times> cell \<Rightarrow> error + (string \<times> string)" where
  "two_values_question L entity col t vs =
     (case vs of (value1, value2) \<Rightarrow>
      (case format (template t)
              [(''entity'', entity), (''column'', col),
               (''value1'', py_str L value1), (''value2'', py_str L value2)] of
         Inl e \<Rightarrow> Inl e
       | Inr qtext \<Rightarrow>
          (case format (code_template t)
                  [(''column'', col), (''value1'', py_str L value1),
                   (''value2'', py_str L value2)] of
             Inl e \<Rightarrow> Inl e
           | Inr c \<Rightarrow> Inr (qtext, c))))"

definition standard_question :: "string \<Rightarrow> string \<Rightarrow> question_template \<Rightarrow>
    error + (string \<times> string)" where
  "standard_question entity col t =
     (case format (template t) [(''entity'', entity), (''column'', col)] of
        Inl e \<Rightarrow> Inl e
      | Inr qtext \<Rightarrow>
         (case format (code_template t) [(''column'', col)] of
            Inl e \<Rightarrow> Inl e
          | Inr c \<Rightarrow> Inr (qtext, c)))"

text \<open>
  The single-column branch up to the preview: the question text and the code, or \<open>None\<close>
  for \<open>continue\<close>, with the state of the random generator that follows. A template that
  needs a value draws one of the first five values that occur more than once; one that
  needs two values samples two of the first ten.
\<close>

definition bind_single_v2 :: "pylib \<Rightarrow> 'r randbelow \<Rightarrow> dataframe \<Rightarrow> string \<Rightarrow> string \<Rightarrow>
    analysis \<Rightarrow> question_template \<Rightarrow> 'r \<Rightarrow> error + ((string \<times> string) option \<times> 'r)" where
  "bind_single_v2 L rb df entity col a t r =
     (if needs_value t then
        (if sample_values a \<noteq> [] then
           (case getitem df col of
              Inl e \<Rightarrow> Inl e
            | Inr s \<Rightarrow>
               (if common_values 5 s \<noteq> [] then
                  (case random_choice rb r (common_values 5 s) of
                     Inl e \<Rightarrow> Inl e
                   | Inr (v, r') \<Rightarrow>
                      (case value_question L entity col a t v of
                         Inl e \<Rightarrow> Inl e
                       | Inr qc \<Rightarrow> Inr (Some qc, r')))
                else Inr (None, r)))
         else Inr (None, r))
      else if needs_numeric_value t then
        (case flags a ''is_numeric'' of
           None \<Rightarrow> Inl (KeyError ''is_numeric'')
         | Some num \<Rightarrow>
            (if num \<and> sample_values a \<noteq> [] then
               (case getitem df col of
                  Inl e \<Rightarrow> Inl e
                | Inr s \<Rightarrow>
                   (case threshold_question L entity col t s of
                      Inl e \<Rightarrow> Inl e
                    | Inr qc \<Rightarrow> Inr (Some qc, r)))
             else Inr (None, r)))
      else if needs_two_values t then
        (if sample_values a \<noteq> [] \<and> length (sample_values a) \<ge> 2 then
           (case getitem df col of
              Inl e \<Rightarrow> Inl e
            | Inr s \<Rightarrow>
               (if length (common_values 10 s) \<ge> 2 then
                  (case random_sample2 rb r (common_values 10 s) of
                     Inl e \<Rightarrow> Inl e
                   | Inr (vs, r') \<Rightarrow>
                      (case two_values_question L entity col t vs of
                         Inl e \<Rightarrow> Inl e
                       | Inr qc \<Rightarrow> Inr (Some qc, r')))
                else Inr (None, r)))
         else Inr (None, r))
      else
        (case standard_question entity col t of
           Inl e \<Rightarrow> Inl e
         | Inr qc \<Rightarrow> Inr (Some qc, r)))"

text \<open>
  The list comprehension \<open>[c for c in df.columns if keep c and not
  column_analysis[c].get('is_identifier', False)]\<close>; \<open>column_analysis[c]\<close> raises KeyError.
\<close>

fun not_identifier_columns :: "(string \<times> analysis) list \<Rightarrow> (string \<Rightarrow> bool) \<Rightarrow> string list \<Rightarrow>
    error + string list" where
  "not_identifier_columns column_analysis keep [] = Inr []"
| "not_identifier_columns column_analysis keep (c # cs) =
     (if \<not> keep c then not_identifier_columns column_analysis keep cs
      else
        (case map_of column_analysis c of
           None \<Rightarrow> Inl (KeyError c)
         | Some a \<Rightarrow>
            (case not_identifier_columns column_analysis keep cs of
               Inl e \<Rightarrow> Inl e
             | Inr rest \<Rightarrow> Inr (if get_flag a ''is_identifier'' then rest else c # rest))))"

text \<open>
  \<open>[preview_cols] + preview_df[preview_cols].values.tolist()\<close>, where \<open>preview_df\<close> is
  \<open>df.head(5)\<close>: the header and the first five rows of the chosen columns.
\<close>

fun select_columns :: "dataframe \<Rightarrow> string list \<Rightarrow> error + series list" where
  "select_columns df [] = Inr []"
| "select_columns df (c # cs) =
     (case getitem df c of
        Inl e \<Rightarrow> Inl e
      | Inr s \<Rightarrow> (case select_columns df cs of Inl e \<Rightarrow> Inl e | Inr ss \<Rightarrow> Inr (s # ss)))"

definition preview_data :: "dataframe \<Rightarrow> string list \<Rightarrow> error + (string list \<times> cell list list)" where
  "preview_data df preview_cols =
     (case select_columns df preview_cols of
        Inl e \<Rightarrow> Inl e
      | Inr ss \<Rightarrow> Inr (preview_cols, take 5 (transpose (map cells ss))))"

text \<open>The loop that fills the dict \<open>col_descriptions\<close>.\<close>

fun column_descriptions :: "(string \<times> analysis) list \<Rightarrow> string list \<Rightarrow> (string \<times> string) list \<Rightarrow>
    error + (string \<times> string) list" where
  "column_descriptions column_analysis [] col_descriptions = Inr col_descriptions"
| "column_descriptions column_analysis (pc # pcs) col_descriptions =
     (case map_of column_analysis pc of
        None \<Rightarrow> Inl (KeyError pc)
      | Some a \<Rightarrow>
          column_descriptions column_analysis pcs
            (AList.update pc (create_column_description pc (sample_values a)) col_descriptions))"

text \<open>The dict \<open>q\<close> with its preview and descriptions, for the given hint and context.\<close>

definition make_question :: "dataframe \<Rightarrow> string \<Rightarrow> (string \<times> analysis) list \<Rightarrow>
    question_template \<Rightarrow> nat \<Rightarrow> string list \<Rightarrow> string \<Rightarrow> string \<Rightarrow> string \<Rightarrow> string \<Rightarrow>
    error + pool_question" where
  "make_question df dataset_name column_analysis t question_id preview_cols context qtext c hint =
     (case preview_data df preview_cols of
        Inl e \<Rightarrow> Inl e
      | Inr preview \<Rightarrow>
         (case column_descriptions column_analysis preview_cols [] of
            Inl e \<Rightarrow> Inl e
          | Inr col_descriptions \<Rightarrow>
              Inr \<lparr>p_id = replace dataset_name ''.csv'' [] @ ''_'' @ t_id t @ ''_''
                          @ zero_pad3 question_id,
                   p_dataset = dataset_name, p_dataPreview = preview,
                   p_columnDescriptions = col_descriptions, p_context = context,
                   p_question = qtext, p_code = c, p_result = ''Computed result'',
                   p_difficulty = t_difficulty t, p_concepts = concepts t, p_hint = hint\<rparr>))"

text \<open>A single-column question: the column itself and up to two other columns previewed.\<close>

definition single_question_v2 :: "dataframe \<Rightarrow> string \<Rightarrow> string \<Rightarrow> (string \<times> analysis) list \<Rightarrow>
    string \<Rightarrow> question_template \<Rightarrow> nat \<Rightarrow> string \<Rightarrow> string \<Rightarrow> error + pool_question" where
  "single_question_v2 df dataset_name entity column_analysis col t question_id qtext c =
     (case (if length (columns df) > 1
            then (case not_identifier_columns column_analysis (\<lambda>c'. c' \<noteq> col) (columns df) of
                    Inl e \<Rightarrow> Inl e
                  | Inr other_cols \<Rightarrow> Inr ([col] @ take 2 other_cols))
            else Inr [col]) of
        Inl e \<Rightarrow> Inl e
      | Inr preview_cols \<Rightarrow>
         (case concepts t of
            [] \<Rightarrow>
              (case make_question df dataset_name column_analysis t question_id preview_cols
                      [] qtext c [] of
                 Inl e \<Rightarrow> Inl e
               | Inr q \<Rightarrow> Inl IndexError)
          | concept # others \<Rightarrow>
              make_question df dataset_name column_analysis t question_id preview_cols
                (''Working with '' @ entity @ '' data.'') qtext c
                (''Use '' @ concept @ '' to solve this'')))"

text \<open>
  The inner loop over the other columns for a two-column template. It carries
  \<open>question_id\<close> and stops (\<open>break\<close>) when the incremented counter is a multiple of 5.
\<close>

definition other_question_v2 :: "dataframe \<Rightarrow> string \<Rightarrow> string \<Rightarrow> (string \<times> analysis) list \<Rightarrow>
    string \<Rightarrow> question_template \<Rightarrow> nat \<Rightarrow> string \<Rightarrow> error + pool_question" where
  "other_question_v2 df dataset_name entity column_analysis col t question_id other_col =
     (case format (template t)
             [(''entity'', entity), (''column'', col), (''other_column'', other_col)] of
        Inl e \<Rightarrow> Inl e
      | Inr qtext \<Rightarrow>
         (case format (code_template t) [(''column'', col), (''other_column'', other_col)] of
            Inl e \<Rightarrow> Inl e
          | Inr c \<Rightarrow>
             (case (if length (columns df) > 2
                    then (case not_identifier_columns column_analysis
                                 (\<lambda>c'. c' \<notin> set [col, other_col]) (columns df) of
                            Inl e \<Rightarrow> Inl e
                          | Inr extra_cols \<Rightarrow> Inr ([col, other_col] @ take 1 extra_cols))
                    else Inr [col, other_col]) of
                Inl e \<Rightarrow> Inl e
              | Inr preview_cols \<Rightarrow>
                  make_question df dataset_name column_analysis t question_id preview_cols
                    (''Analyzing '' @ entity @ '' data by categories.'') qtext c
                    (''Use '' @ join '' and '' (concepts t) @ '' to solve this''))))"

fun other_columns_v2 :: "dataframe \<Rightarrow> string \<Rightarrow> string \<Rightarrow> (string \<times> analysis) list \<Rightarrow>
    string \<Rightarrow> question_template \<Rightarrow> string list \<Rightarrow> (string \<times> analysis) list \<Rightarrow> nat \<Rightarrow>
    error + (pool_question list \<times> nat)" where
  "other_columns_v2 df dataset_name entity column_analysis col t reqs [] question_id =
     Inr ([], question_id)"
| "other_columns_v2 df dataset_name entity column_analysis col t reqs
       ((other_col, other_analysis) # rest) question_id =
     (if other_col = col \<or> get_flag other_analysis ''is_identifier''
      then other_columns_v2 df dataset_name entity column_analysis col t reqs rest question_id
      else if \<not> list_ex (\<lambda>req. req = ''any'' \<or> get_flag other_analysis req) reqs
      then other_columns_v2 df dataset_name entity column_analysis col t reqs rest question_id
      else
        (case other_question_v2 df dataset_name entity column_analysis col t question_id
                other_col of
           Inl e \<Rightarrow> Inl e
         | Inr q \<Rightarrow>
            (if (question_id + 1) mod 5 = 0 then Inr ([q], question_id + 1)
             else
               (case other_columns_v2 df dataset_name entity column_analysis col t reqs rest
                       (question_id + 1) of
                  Inl e \<Rightarrow> Inl e
                | Inr (qs, n) \<Rightarrow> Inr (q # qs, n)))))"

text \<open>
  A \<open>for\<close> loop whose body appends questions and updates the loop's state, here the pair of
  \<open>question_id\<close> and the state of the random generator.
\<close>

fun collect_st :: "('a \<Rightarrow> 's \<Rightarrow> error + ('b list \<times> 's)) \<Rightarrow> 'a list \<Rightarrow> 's \<Rightarrow> error + ('b list \<times> 's)" where
  "collect_st body [] st = Inr ([], st)"
| "collect_st body (x # xs) st =
     (case body x st of
        Inl e \<Rightarrow> Inl e
      | Inr (ys, st') \<Rightarrow>
         (case collect_st body xs st' of
            Inl e \<Rightarrow> Inl e
          | Inr (zs, st'') \<Rightarrow> Inr (ys @ zs, st'')))"

text \<open>The body of the loop over the templates.\<close>

definition questions_for_template_v2 :: "pylib \<Rightarrow> 'r randbelow \<Rightarrow> dataframe \<Rightarrow> string \<Rightarrow> string \<Rightarrow>
    (string \<times> analysis) list \<Rightarrow> string \<Rightarrow> analysis \<Rightarrow> question_template \<Rightarrow> nat \<times> 'r \<Rightarrow>
    error + (pool_question list \<times> (nat \<times> 'r))" where
  "questions_for_template_v2 L rb df dataset_name entity column_analysis col a t st =
     (case st of (question_id, r) \<Rightarrow>
      if \<not> list_all (get_flag a) (requires t) then Inr ([], st)
      else
        (case requires_other t of
           None \<Rightarrow>
            (case bind_single_v2 L rb df entity col a t r of
               Inl e \<Rightarrow> Inl e
             | Inr (None, r') \<Rightarrow> Inr ([], (question_id, r'))
             | Inr (Some (qtext, c), r') \<Rightarrow>
                (case single_question_v2 df dataset_name entity column_analysis col t
                        question_id qtext c of
                   Inl e \<Rightarrow> Inl e
                 | Inr q \<Rightarrow> Inr ([q], (question_id + 1, r'))))
         | Some reqs \<Rightarrow>
            (case other_columns_v2 df dataset_name entity column_analysis col t reqs
                    column_analysis question_id of
               Inl e \<Rightarrow> Inl e
             | Inr (qs, n) \<Rightarrow> Inr (qs, (n, r)))))"

text \<open>The body of the loop over the columns: an identifier column is skipped.\<close>

definition questions_for_column_v2 :: "pylib \<Rightarrow> 'r randbelow \<Rightarrow> dataframe \<Rightarrow> string \<Rightarrow> string \<Rightarrow>
    (string \<times> analysis) list \<Rightarrow> string \<times> analysis \<Rightarrow> nat \<times> 'r \<Rightarrow>
    error + (pool_question list \<times> (nat \<times> 'r))" where
  "questions_for_column_v2 L rb df dataset_name entity column_analysis ca st =
     (if get_flag (snd ca) ''is_identifier'' then Inr ([], st)
      else
        collect_st
          (questions_for_template_v2 L rb df dataset_name entity column_analysis (fst ca) (snd ca))
          generate_question_templates_v2 st)"

text \<open>
  \<open>generate_questions_for_dataset\<close> of v2, from the frame read and the state of the random
  generator at the call; it returns the questions and the state of the generator.
\<close>

definition generate_questions_for_dataset_v2 :: "pylib \<Rightarrow> 'r randbelow \<Rightarrow> dataframe \<Rightarrow> string \<Rightarrow>
    'r \<Rightarrow> error + (pool_question list \<times> 'r)" where
  "generate_questions_for_dataset_v2 L rb df dataset_name r =
     (case analyze_all analyze_column_v2 df (columns df) [] of
        Inl e \<Rightarrow> Inl e
      | Inr column_analysis \<Rightarrow>
         (case collect_st
                 (questions_for_column_v2 L rb df dataset_name (entity_type_v2 dataset_name)
                    column_analysis)
                 column_analysis (1, r) of
            Inl e \<Rightarrow> Inl e
          | Inr (questions, (question_id, r')) \<Rightarrow> Inr (questions, r')))"

section \<open>Pass 2: \<open>review_questions\<close>\<close>

text \<open>
  The evaluation dict of \<open>evaluate_question\<close>. The question reviewed is a record of pass 1,
  read back from \<open>question_bank_raw.json\<close>.
\<close>

record evaluation =
  makes_sense :: bool
  reasons :: "string list"
  actual_result :: "evaluated option"
  is_meaningful :: bool

text \<open>Issue 1: the mean or sum of a column whose name looks like an identifier or a code.\<close>

definition check_identifier_aggregation :: "raw_question \<Rightarrow> evaluation \<Rightarrow> evaluation" where
  "check_identifier_aggregation q ev =
     (if list_ex (\<lambda>word. str_in word (lower (column q))) [''id'', ''code'', ''number'', ''zip'']
      then
        (if list_ex (\<lambda>op. str_in op (code q)) [''.mean()'', ''.sum()'']
         then ev\<lparr>makes_sense := False,
                 reasons := reasons ev @ [''Calculating mean/sum of IDs or codes is not meaningful'']\<rparr>
         else ev)
      else ev)"

text \<open>
  Issue 2: a \<open>groupby\<close> on a column of the frame, more than half of whose rows carry
  distinct values. The division raises on a frame with no rows.
\<close>

definition check_groupby :: "raw_question \<Rightarrow> dataframe \<Rightarrow> evaluation \<Rightarrow> error + evaluation" where
  "check_groupby q df ev =
     (if str_in ''groupby'' (code q) then
        (let groupby_col = column q in
         if groupby_col \<in> set (columns df) then
           (case getitem df groupby_col of
              Inl e \<Rightarrow> Inl e
            | Inr s \<Rightarrow>
               (case py_truediv (nunique s) (len_df df) of
                  Inl e \<Rightarrow> Inl e
                | Inr unique_ratio \<Rightarrow>
                    if unique_ratio > 1 / 2
                    then Inr (ev\<lparr>makes_sense := False,
                                 reasons := reasons ev @
                                   [''Grouping by '' @ groupby_col
                                    @ '' has too many unique values ('' @ str_nat (nunique s)
                                    @ '')'']\<rparr>)
                    else Inr ev))
         else Inr ev)
      else Inr ev)"

text \<open>Issue 3: the query is run again; an empty frame and a series of more than 100
  entries are not meaningful, an exception makes no sense.\<close>

definition check_execution :: "pylib \<Rightarrow> raw_question \<Rightarrow> dataframe \<Rightarrow> evaluation \<Rightarrow> evaluation" where
  "check_execution L q df ev =
     (case eval_code L df (code q) of
        Inr res \<Rightarrow>
          (let ev = ev\<lparr>actual_result := Some res\<rparr>;
               ev = (if kind res = DataFrame \<and> len res = 0
                     then ev\<lparr>is_meaningful := False,
                             reasons := reasons ev @ [''Query returns empty result'']\<rparr>
                     else ev);
               ev = (if kind res = Series \<and> len res > 100
                     then ev\<lparr>is_meaningful := False,
                             reasons := reasons ev
                               @ [''Result has too many categories to be useful'']\<rparr>
                     else ev)
           in ev)
      | Inl msg \<Rightarrow>
          ev\<lparr>makes_sense := False,
             reasons := reasons ev @ [''Code execution error: '' @ msg]\<rparr>)"

text \<open>Issue 4: the patterns, with \<open>.*\<close> replaced by a space, searched in the lower-cased
  question text.\<close>

definition odd_patterns :: "(string \<times> string) list" where
  "odd_patterns =
     [(''average.*name'', ''Cannot average names''),
      (''sum.*category'', ''Cannot sum categories''),
      (''total.*id'', ''Summing IDs is not meaningful'')]"

fun check_patterns :: "string \<Rightarrow> (string \<times> string) list \<Rightarrow> evaluation \<Rightarrow> evaluation" where
  "check_patterns q_text [] ev = ev"
| "check_patterns q_text ((pattern, reason) # rest) ev =
     check_patterns q_text rest
       (if str_in (replace pattern ''.*'' '' '') q_text
        then ev\<lparr>makes_sense := False, reasons := reasons ev @ [reason]\<rparr>
        else ev)"

definition evaluate_question :: "pylib \<Rightarrow> raw_question \<Rightarrow> dataframe \<Rightarrow> error + evaluation" where
  "evaluate_question L q df =
     (let evaluation = \<lparr>makes_sense = True, reasons = [], actual_result = None,
                        is_meaningful = True\<rparr>;
          q_text = lower (question q);
          evaluation = check_identifier_aggregation q evaluation
      in case check_groupby q df evaluation of
           Inl e \<Rightarrow> Inl e
         | Inr evaluation \<Rightarrow>
             Inr (check_patterns q_text odd_patterns (check_execution L q df evaluation)))"

subsection \<open>\<open>create_final_question\<close>\<close>

record final_question =
  f_dataset :: string
  f_dataPreview :: "cell list list"
  f_dataColumns :: "string list"
  f_context :: string
  f_question :: string
  f_code :: string
  f_result :: string
  f_difficulty :: nat
  f_concepts :: "string list"
  f_hint :: string

definition determine_concepts :: "string \<Rightarrow> string list" where
  "determine_concepts c =
     map snd (filter (\<lambda>p. str_in (fst p) c)
       [(''value_counts()'', ''value_counts''), (''groupby('', ''groupby''),
        (''.mean()'', ''mean''), (''.sum()'', ''sum''), (''.max()'', ''max''),
        (''.min()'', ''min''), (''nlargest('', ''nlargest''), (''nsmallest('', ''nsmallest''),
        (''.nunique()'', ''nunique''), (''.idxmax()'', ''idxmax''),
        (''len(df['', ''filtering''), (''df[df['', ''boolean_indexing''),
        (''.str.contains('', ''string_contains''), (''.sort_values('', ''sorting'')])"

definition generate_hint :: "raw_question \<Rightarrow> string" where
  "generate_hint q =
     (case map_of
        [(''value_counts_basic'', ''Count how many times each value appears''),
         (''groupby_mean'', ''Group the data first, then calculate the average''),
         (''filter_equals'', ''Filter the dataframe to only include matching rows''),
         (''nlargest'', ''Find the rows with the highest values''),
         (''string_contains'', ''Use string methods to search for partial matches'')]
        (template_id q) of
        None \<Rightarrow> ''Think about what operation would answer this question''
      | Some h \<Rightarrow> h)"

definition contexts :: "(string \<times> string) list" where
  "contexts =
     [(''powerplants.csv'', ''This dataset contains information about US power plants including their location, energy source, and production capacity.''),
      (''motorcycles.csv'', ''This dataset contains technical specifications for motorcycles from various manufacturers.''),
      (''foods.csv'', ''This dataset contains nutritional information for pet food products.''),
      (''grammys.csv'', ''This dataset contains Grammy award nominations and winners from 1990-2023.''),
      (''race-places.csv'', ''This dataset contains race results for various drivers over multiple years.''),
      (''tickets-tiny.csv'', ''This dataset contains traffic violation records with demographic information.'')]"

definition create_final_question :: "raw_question \<Rightarrow> dataframe \<Rightarrow> error + final_question" where
  "create_final_question q df =
     (let cols_in_question =
            [column q] @ (case other_column q of None \<Rightarrow> [] | Some oc \<Rightarrow> [oc]);
          preview_cols = take 5 (unique (cols_in_question @ take 3 (columns df)))
      in case select_columns df preview_cols of
           Inl e \<Rightarrow> Inl e
         | Inr ss \<Rightarrow>
             Inr \<lparr>f_dataset = dataset q,
                  f_dataPreview = take 5 (transpose (map cells ss)),
                  f_dataColumns = preview_cols,
                  f_context = (case map_of contexts (dataset q) of
                                 None \<Rightarrow> ''Dataset of '' @ dataset q | Some c \<Rightarrow> c),
                  f_question = question q, f_code = code q, f_result = result q,
                  f_difficulty = difficulty q, f_concepts = determine_concepts (code q),
                  f_hint = generate_hint q\<rparr>)"

subsection \<open>The review loop of \<open>main\<close>\<close>

text \<open>
  \<open>rejected_questions\<close> is a list of pairs of a question and either one string or the list
  \<open>evaluation['reasons']\<close>. \<open>datasets\<close> is the dict of the frames that were loaded.
\<close>

datatype rejection = Reason string | Reasons "string list"

type_synonym review_state = "final_question list \<times> (raw_question \<times> rejection) list"

definition review_question :: "pylib \<Rightarrow> (string \<rightharpoonup> dataframe) \<Rightarrow> raw_question \<Rightarrow> review_state \<Rightarrow>
    error + review_state" where
  "review_question L datasets q st =
     (case st of (good_questions, rejected_questions) \<Rightarrow>
      if status q \<noteq> ''valid''
      then Inr (good_questions, rejected_questions @ [(q, Reason ''Invalid code'')])
      else
        (case datasets (dataset q) of
           None \<Rightarrow> Inr (good_questions, rejected_questions @ [(q, Reason ''Dataset not found'')])
         | Some df \<Rightarrow>
            (case evaluate_question L q df of
               Inl e \<Rightarrow> Inl e
             | Inr evaluation \<Rightarrow>
                 if makes_sense evaluation \<and> is_meaningful evaluation
                 then (case create_final_question q df of
                         Inl e \<Rightarrow> Inl e
                       | Inr final_q \<Rightarrow> Inr (good_questions @ [final_q], rejected_questions))
                 else Inr (good_questions,
                           rejected_questions @ [(q, Reasons (reasons evaluation))]))))"

fun review_all :: "pylib \<Rightarrow> (string \<rightharpoonup> dataframe) \<Rightarrow> raw_question list \<Rightarrow> review_state \<Rightarrow>
    error + review_state" where
  "review_all L datasets [] st = Inr st"
| "review_all L datasets (q # qs) st =
     (case review_question L datasets q st of
        Inl e \<Rightarrow> Inl e
      | Inr st' \<Rightarrow> review_all L datasets qs st')"

section \<open>Example tables\<close>

text \<open>A frame with one numeric column whose name contains \<open>id\<close> in mixed case.\<close>

definition users_frame :: dataframe where
  "users_frame = [(''User_ID'', \<lparr>dtype = Int64, cells = [Num 7, Num 7, Num 8, Num 8]\<rparr>)]"

text \<open>
  Two frames with one text column: two distinct values in four rows (ratio 0.5) and two in
  five rows (ratio 0.4).
\<close>

definition status_frame :: dataframe where
  "status_frame =
     [(''status'', \<lparr>dtype = Object,
                     cells = [Str ''open'', Str ''open'', Str ''closed'', Str ''closed'']\<rparr>)]"

definition status_frame5 :: dataframe where
  "status_frame5 =
     [(''status'', \<lparr>dtype = Object,
                     cells = [Str ''open'', Str ''open'', Str ''closed'', Str ''closed'',
                              Str ''open'']\<rparr>)]"

text \<open>The frame of a CSV file that has a header line and no rows.\<close>

definition header_only_frame :: dataframe where
  "header_only_frame = [(''status'', \<lparr>dtype = Object, cells = []\<rparr>)]"

text \<open>
  A library for the examples: \<open>str\<close> of a whole number, a fixed printed median, and an
  evaluator that returns the same outcome for every query.
\<close>

definition str_whole :: "rat \<Rightarrow> string" where
  "str_whole x = (if x < 0 then ''-'' @ str_nat (nat (- \<lfloor>x\<rfloor>)) else str_nat (nat \<lfloor>x\<rfloor>))"

definition lib_with :: "string + evaluated \<Rightarrow> pylib" where
  "lib_with outcome =
     \<lparr>eval_code = (\<lambda>df c. outcome), str_num = str_whole, median_round2 = (\<lambda>s. ''1.5'')\<rparr>"

text \<open>
  A frame whose column \<open>category\<close> has four distinct values in five rows (unique ratio
  0.8), a question that groups by it, and the outcome of its query: a series of four means.
\<close>

definition sales_frame :: dataframe where
  "sales_frame =
     [(''category'', \<lparr>dtype = Object,
                       cells = [Str ''A'', Str ''B'', Str ''C'', Str ''D'', Str ''A'']\<rparr>),
      (''amount'', \<lparr>dtype = Int64, cells = [Num 10, Num 20, Num 30, Num 40, Num 50]\<rparr>)]"

definition groupby_question :: raw_question where
  "groupby_question =
     \<lparr>dataset = ''sales.csv'', template_id = ''groupby_mean'', column = ''category'',
      other_column = Some ''amount'', difficulty = 2,
      question = ''What is the average amount for each category?'',
      code = ''df.groupby('category')['amount'].mean()'',
      result = ''category A 30.0 B 20.0 C 30.0 D 40.0'', status = ''valid''\<rparr>"

definition four_means :: evaluated where
  "four_means = \<lparr>kind = Series, len = 4, printed = ''category A 30.0 B 20.0 C 30.0 D 40.0''\<rparr>"

text \<open>A question of pass 1 whose execution failed.\<close>

definition failed_question :: raw_question where
  "failed_question =
     \<lparr>dataset = ''sales.csv'', template_id = ''max_value'', column = ''amount'',
      other_column = None, difficulty = 1, question = ''What is the maximum amount?'',
      code = ''df['amount'].max()'', result = ''Error: unsupported operand'',
      status = ''error''\<rparr>"

text \<open>The outcome of a query that returns a series of 150 entries printed in 300 characters.\<close>

definition long_series :: evaluated where
  "long_series = \<lparr>kind = Series, len = 150, printed = replicate 300 (CHR ''x'')\<rparr>"

text \<open>A frame with one text column in which no value is repeated.\<close>

definition names_frame :: dataframe where
  "names_frame = [(''name'', \<lparr>dtype = Object, cells = [Str ''Ann'', Str ''Bob'']\<rparr>)]"

text \<open>
  A frame with one text column whose first value is a plus sign. For the query that pass 1
  derives from \<open>filter_equals\<close> on it, \<open>len(df[df['sign'] == ''+''])\<close>, Python evaluates
  \<open>'' + ''\<close> to the empty string, selects no row and returns 0; \<open>signs_lib\<close> has this
  outcome for that query and an exception for any other.
\<close>

definition signs_frame :: dataframe where
  "signs_frame = [(''sign'', \<lparr>dtype = Object, cells = [Str ''+'', Str ''-'', Str ''+'']\<rparr>)]"

definition signs_query :: string where
  "signs_query = ''len(df[df['' @ quoted ''sign'' @ ''] == '' @ quoted (quoted ''+'') @ ''])''"

definition signs_lib :: pylib where
  "signs_lib =
     \<lparr>eval_code = (\<lambda>df c. if c = signs_query
                             then Inr \<lparr>kind = Other, len = 0, printed = ''0''\<rparr>
                             else Inl ''not evaluated''),
      str_num = str_whole, median_round2 = (\<lambda>s. ''1.5'')\<rparr>"

text \<open>
  A frame with an identifier column and a text column, and a random generator for the
  examples: a counter, the draw below \<open>n\<close> being the counter modulo \<open>n\<close>.
\<close>

definition tickets_frame :: dataframe where
  "tickets_frame =
     [(''ticket_id'', \<lparr>dtype = Int64, cells = [Num 1, Num 2, Num 3, Num 4, Num 5]\<rparr>),
      (''status'', \<lparr>dtype = Object,
                     cells = [Str ''open'', Str ''open'', Str ''closed'', Str ''closed'',
                              Str ''open'']\<rparr>)]"

definition counter_rng :: "nat randbelow" where
  "counter_rng r n = (r mod n, r + 1)"

text \<open>A frame with two rows whose only column has no value.\<close>

definition blank_frame :: dataframe where
  "blank_frame = [(''note'', \<lparr>dtype = Object, cells = [NaN, NaN]\<rparr>)]"

text \<open>The entries \<open>filter_count\<close> of the v2 catalog and \<open>filter_equals\<close> of pass 1.\<close>

definition filter_count_entry :: question_template where
  "filter_count_entry = generate_question_templates_v2 ! 2"

definition filter_equals_entry :: question_template where
  "filter_equals_entry = generate_question_templates ! 11"

text \<open>
  A second random generator: it draws as \<open>counter_rng\<close> does and also keeps the sum of the
  bounds it was asked for.
\<close>

definition tally_rng :: "(nat \<times> nat) randbelow" where
  "tally_rng r n = (fst r mod n, (fst r + 1, snd r + n))"

section \<open>The column profiler\<close>

lemma analyze_column_Inr:
  assumes "analyze_column df col = Inr a" and "getitem df col = Inr s"
  shows "len_df df \<noteq> 0"
    and "flags a = (if is_numeric_dtype (dtype s)
                    then numeric_flags ''can_rank'' col (real (nunique s) / real (len_df df))
                    else categorical_flags (real (nunique s) / real (len_df df)))"
    and "sample_values a = take 5 (dropna s)"
    and "unique_count a = nunique s"
    and "name a = col"
  using assms
  by (auto simp add: analyze_column_def py_truediv_def split: if_splits)

lemma analyze_column_v2_Inr:
  assumes "analyze_column_v2 df col = Inr a" and "getitem df col = Inr s"
  shows "len_df df \<noteq> 0"
    and "flags a = (if is_numeric_dtype (dtype s)
                    then numeric_flags ''can_sort'' col (real (nunique s) / real (len_df df))
                    else categorical_flags_v2 (real (nunique s) / real (len_df df)))"
    and "sample_values a = take 10 (dropna s)"
    and "unique_count a = nunique s"
    and "name a = col"
  using assms
  by (auto simp add: analyze_column_v2_def py_truediv_def split: if_splits)

lemma analyze_column_total:
  assumes "getitem df col = Inr s" and "len_df df \<noteq> 0"
  shows "\<exists>a. analyze_column df col = Inr a" and "\<exists>a. analyze_column_v2 df col = Inr a"
  using assms by (simp_all add: analyze_column_def analyze_column_v2_def py_truediv_def)

lemma numeric_flags_identifier:
  assumes "unique_ratio > 9 / 10 \<or> str_in ''id'' (lower col) \<or> str_in ''number'' (lower col)"
    and "rank = ''can_rank'' \<or> rank = ''can_sort''"
  shows "numeric_flags rank col unique_ratio =
           [''is_numeric'' \<mapsto> True, ''can_sum'' \<mapsto> False, ''can_mean'' \<mapsto> False,
            rank \<mapsto> True, ''is_identifier'' \<mapsto> True]"
  using assms by (auto simp add: numeric_flags_def set_flag_def Let_def fun_eq_iff)

lemma numeric_flags_plain:
  assumes "\<not> (unique_ratio > 9 / 10 \<or> str_in ''id'' (lower col) \<or> str_in ''number'' (lower col))"
    and "rank = ''can_rank'' \<or> rank = ''can_sort''"
  shows "numeric_flags rank col unique_ratio =
           [''is_numeric'' \<mapsto> True, ''can_sum'' \<mapsto> True, ''can_mean'' \<mapsto> True, rank \<mapsto> True]"
  using assms by (auto simp add: numeric_flags_def set_flag_def Let_def fun_eq_iff)

lemma categorical_flags_eq:
  "categorical_flags x =
     [''is_numeric'' \<mapsto> False, ''is_categorical'' \<mapsto> True, ''can_group_by'' \<mapsto> (x < 1 / 2),
      ''can_value_count'' \<mapsto> True]"
  "categorical_flags_v2 x =
     [''is_numeric'' \<mapsto> False, ''is_categorical'' \<mapsto> True, ''can_group_by'' \<mapsto> (x < 1 / 2),
      ''can_value_count'' \<mapsto> True, ''can_filter'' \<mapsto> True]"
  by (simp_all add: categorical_flags_def categorical_flags_v2_def set_flag_def Let_def)

text \<open>
  C4. Whenever either profiler returns a profile for a numeric column whose unique ratio
  exceeds 0.9 or whose name contains \<open>id\<close> or \<open>number\<close> in any case, the profile has
  \<open>is_identifier\<close> true and \<open>can_sum\<close> and \<open>can_mean\<close> false; and in every profile returned,
  \<open>is_identifier\<close> implies that \<open>can_sum\<close> and \<open>can_mean\<close> are false.
\<close>

theorem identifier_disables_sum_mean:
  assumes ret: "analyze_column df col = Inr a \<or> analyze_column_v2 df col = Inr a"
    and col: "getitem df col = Inr s"
  shows "(is_numeric_dtype (dtype s) \<and>
            (real (nunique s) / real (len_df df) > 9 / 10
               \<or> str_in ''id'' (lower col) \<or> str_in ''number'' (lower col)) \<longrightarrow>
            flags a ''is_identifier'' = Some True \<and> flags a ''can_sum'' = Some False
              \<and> flags a ''can_mean'' = Some False)
       \<and> (get_flag a ''is_identifier'' \<longrightarrow>
            \<not> get_flag a ''can_sum'' \<and> \<not> get_flag a ''can_mean'')"
proof -
  define x where "x = real (nunique s) / real (len_df df)"
  define ident where
    "ident \<longleftrightarrow> x > 9 / 10 \<or> str_in ''id'' (lower col) \<or> str_in ''number'' (lower col)"
  obtain rank where rank: "rank = ''can_rank'' \<or> rank = ''can_sort''"
    and fl: "flags a = (if is_numeric_dtype (dtype s) then numeric_flags rank col x
                        else if rank = ''can_rank'' then categorical_flags x
                        else categorical_flags_v2 x)"
    using ret analyze_column_Inr(2) [OF _ col] analyze_column_v2_Inr(2) [OF _ col]
    unfolding x_def by fastforce
  have num_id: "flags a = [''is_numeric'' \<mapsto> True, ''can_sum'' \<mapsto> False, ''can_mean'' \<mapsto> False,
            rank \<mapsto> True, ''is_identifier'' \<mapsto> True]"
    if "is_numeric_dtype (dtype s)" and "ident"
    using that fl numeric_flags_identifier [OF _ rank, of x col] unfolding ident_def by simp
  have first: "flags a ''is_identifier'' = Some True \<and> flags a ''can_sum'' = Some False
              \<and> flags a ''can_mean'' = Some False"
    if "is_numeric_dtype (dtype s)" and "ident"
    using num_id [OF that] rank by auto
  have second: "\<not> get_flag a ''can_sum'' \<and> \<not> get_flag a ''can_mean''"
    if id: "get_flag a ''is_identifier''"
  proof (cases "is_numeric_dtype (dtype s)")
    case True
    show ?thesis
    proof (cases ident)
      case True
      with first [OF \<open>is_numeric_dtype (dtype s)\<close>] show ?thesis by (simp add: get_flag_def)
    next
      case False
      then have "flags a = [''is_numeric'' \<mapsto> True, ''can_sum'' \<mapsto> True, ''can_mean'' \<mapsto> True,
          rank \<mapsto> True]"
        using fl True numeric_flags_plain [OF _ rank, of x col] unfolding ident_def by simp
      with id rank show ?thesis by (auto simp add: get_flag_def)
    qed
  next
    case False
    with fl id rank show ?thesis
      by (auto simp add: get_flag_def categorical_flags_eq)
  qed
  from first second show ?thesis unfolding ident_def x_def by blast
qed

theorem identifier_disables_sum_mean_witness:
  "\<exists>a s. analyze_column users_frame ''User_ID'' = Inr a
       \<and> getitem users_frame ''User_ID'' = Inr s
       \<and> is_numeric_dtype (dtype s) \<and> str_in ''id'' (lower ''User_ID'')
       \<and> flags a ''is_identifier'' = Some True \<and> flags a ''can_sum'' = Some False
       \<and> flags a ''can_mean'' = Some False
       \<and> get_flag a ''is_identifier'' \<and> \<not> get_flag a ''can_sum'' \<and> \<not> get_flag a ''can_mean''"
proof -
  obtain s where s: "getitem users_frame ''User_ID'' = Inr s"
    and num: "is_numeric_dtype (dtype s)"
    by (simp add: getitem_def users_frame_def)
  obtain a where a: "analyze_column users_frame ''User_ID'' = Inr a"
    using analyze_column_total(1) [OF s] by (auto simp add: len_df_def users_frame_def)
  have nm: "str_in ''id'' (lower ''User_ID'')"
    by (simp add: lower_def lower_char_def)
  from identifier_disables_sum_mean [OF disjI1 [OF a] s] num nm
  have "flags a ''is_identifier'' = Some True \<and> flags a ''can_sum'' = Some False
       \<and> flags a ''can_mean'' = Some False" by blast
  then show ?thesis using a s num nm by (auto simp add: get_flag_def)
qed

text \<open>
  C5. Whenever either profiler returns a profile for a column that is not numeric, its
  \<open>can_group_by\<close> flag is set, and it is true if and only if the number of distinct values
  divided by the number of rows is strictly less than 0.5.
\<close>

theorem can_group_by_iff:
  assumes ret: "analyze_column df col = Inr a \<or> analyze_column_v2 df col = Inr a"
    and col: "getitem df col = Inr s"
    and cat: "\<not> is_numeric_dtype (dtype s)"
  shows "flags a ''can_group_by'' = Some (real (unique_count a) / real (len_df df) < 1 / 2)
       \<and> (get_flag a ''can_group_by'' \<longleftrightarrow> real (unique_count a) / real (len_df df) < 1 / 2)
       \<and> unique_count a = nunique s"
proof -
  have uc: "unique_count a = nunique s"
    using ret analyze_column_Inr(4) [OF _ col] analyze_column_v2_Inr(4) [OF _ col] by blast
  have "flags a = categorical_flags (real (nunique s) / real (len_df df))
      \<or> flags a = categorical_flags_v2 (real (nunique s) / real (len_df df))"
    using ret cat analyze_column_Inr(2) [OF _ col] analyze_column_v2_Inr(2) [OF _ col] by auto
  then have "flags a ''can_group_by'' = Some (real (nunique s) / real (len_df df) < 1 / 2)"
    by (auto simp add: categorical_flags_eq)
  then show ?thesis using uc by (simp add: get_flag_def)
qed

theorem can_group_by_iff_witness:
  "(\<exists>a s. analyze_column status_frame ''status'' = Inr a
        \<and> getitem status_frame ''status'' = Inr s \<and> \<not> is_numeric_dtype (dtype s)
        \<and> unique_count a = 2 \<and> len_df status_frame = 4 \<and> \<not> get_flag a ''can_group_by'')
   \<and> (\<exists>a s. analyze_column_v2 status_frame5 ''status'' = Inr a
        \<and> getitem status_frame5 ''status'' = Inr s \<and> \<not> is_numeric_dtype (dtype s)
        \<and> unique_count a = 2 \<and> len_df status_frame5 = 5 \<and> get_flag a ''can_group_by'')"
proof -
  obtain s where s: "getitem status_frame ''status'' = Inr s"
    and cat: "\<not> is_numeric_dtype (dtype s)" and n: "nunique s = 2"
    by (simp add: getitem_def status_frame_def nunique_def dropna_def)
  have l: "len_df status_frame = 4" by (simp add: len_df_def status_frame_def)
  obtain a where a: "analyze_column status_frame ''status'' = Inr a"
    using analyze_column_total(1) [OF s] l by auto
  obtain s' where s': "getitem status_frame5 ''status'' = Inr s'"
    and cat': "\<not> is_numeric_dtype (dtype s')" and n': "nunique s' = 2"
    by (simp add: getitem_def status_frame5_def nunique_def dropna_def)
  have l': "len_df status_frame5 = 5" by (simp add: len_df_def status_frame5_def)
  obtain a' where a': "analyze_column_v2 status_frame5 ''status'' = Inr a'"
    using analyze_column_total(2) [OF s'] l' by auto
  have "\<not> get_flag a ''can_group_by'' \<and> unique_count a = 2"
    using can_group_by_iff [OF disjI1 [OF a] s cat] n l by simp
  moreover have "get_flag a' ''can_group_by'' \<and> unique_count a' = 2"
    using can_group_by_iff [OF disjI2 [OF a'] s' cat'] n' l' by simp
  ultimately show ?thesis using a s cat l a' s' cat' l' by blast
qed

text \<open>
  On a frame with at least one row both profilers return a profile for every column of the
  frame, and a column without a non-missing value has no sample values.
\<close>

lemma analyze_column_no_samples:
  assumes "getitem df col = Inr s" and "len_df df \<noteq> 0" and "\<forall>v \<in> set (cells s). v = NaN"
  shows "\<exists>a. analyze_column df col = Inr a \<and> sample_values a = []"
    and "\<exists>a. analyze_column_v2 df col = Inr a \<and> sample_values a = []"
proof -
  have "dropna s = []" using assms(3) by (auto simp add: dropna_def filter_empty_conv)
  then show "\<exists>a. analyze_column df col = Inr a \<and> sample_values a = []"
    and "\<exists>a. analyze_column_v2 df col = Inr a \<and> sample_values a = []"
    using assms(1,2) by (simp_all add: analyze_column_def analyze_column_v2_def py_truediv_def)
qed

text \<open>
  C8. On the frame of a CSV file with a header and no rows, both profilers raise
  ZeroDivisionError instead of returning a profile: the division of the unique count by the
  number of rows is not guarded.
\<close>

theorem analyze_column_zero_rows:
  "analyze_column header_only_frame ''status'' = Inl ZeroDivisionError
   \<and> analyze_column_v2 header_only_frame ''status'' = Inl ZeroDivisionError"
  by (simp add: analyze_column_def analyze_column_v2_def header_only_frame_def getitem_def
      len_df_def py_truediv_def nunique_def dropna_def)

section \<open>The validator\<close>

lemma check_execution_keeps:
  "\<not> makes_sense ev \<Longrightarrow> \<not> makes_sense (check_execution L q df ev)"
  "set (reasons ev) \<subseteq> set (reasons (check_execution L q df ev))"
  by (auto simp add: check_execution_def Let_def split: sum.splits)

lemma check_patterns_keeps:
  "\<not> makes_sense ev \<Longrightarrow> \<not> makes_sense (check_patterns q_text ps ev)"
  "set (reasons ev) \<subseteq> set (reasons (check_patterns q_text ps ev))"
proof -
  show "\<not> makes_sense ev \<Longrightarrow> \<not> makes_sense (check_patterns q_text ps ev)"
    by (induction q_text ps ev rule: check_patterns.induct) auto
  show "set (reasons ev) \<subseteq> set (reasons (check_patterns q_text ps ev))"
    by (induction q_text ps ev rule: check_patterns.induct) auto
qed

lemma check_execution_error:
  assumes "eval_code L df (code q) = Inl msg"
  shows "\<not> makes_sense (check_execution L q df ev)"
    and "(''Code execution error: '' @ msg) \<in> set (reasons (check_execution L q df ev))"
  using assms by (simp_all add: check_execution_def)

lemma getitem_columns: "(\<exists>s. getitem df col = Inr s) \<longleftrightarrow> col \<in> set (columns df)"
proof -
  have "(map_of df col \<noteq> None) \<longleftrightarrow> col \<in> fst ` set df"
    by (simp add: map_of_eq_None_iff)
  then show ?thesis
    by (auto simp add: getitem_def columns_def split: option.splits)
qed

lemma check_groupby_total:
  assumes "len_df df \<noteq> 0"
  shows "\<exists>ev'. check_groupby q df ev = Inr ev'"
proof (cases "column q \<in> set (columns df)")
  case True
  then obtain s where "getitem df (column q) = Inr s" using getitem_columns by blast
  then show ?thesis using assms by (simp add: check_groupby_def py_truediv_def Let_def)
next
  case False
  then show ?thesis by (simp add: check_groupby_def Let_def)
qed

text \<open>
  C3. When the code of a question contains \<open>groupby\<close> and its column is a column of the
  frame whose unique ratio exceeds 0.5, \<open>evaluate_question\<close> returns an evaluation that
  makes no sense and whose reasons hold the high-cardinality message with the unique count;
  the review loop then appends the question, if its status is \<open>valid\<close> and its data set
  was loaded, to the rejected list with these reasons. This covers a ratio of 0.8.
\<close>

theorem high_cardinality_groupby_rejected:
  assumes gb: "str_in ''groupby'' (code q)"
    and col: "getitem df (column q) = Inr s"
    and ratio: "real (nunique s) / real (len_df df) > 1 / 2"
  shows "\<exists>ev. evaluate_question L q df = Inr ev \<and> \<not> makes_sense ev
          \<and> (''Grouping by '' @ column q @ '' has too many unique values (''
               @ str_nat (nunique s) @ '')'') \<in> set (reasons ev)
          \<and> (status q = ''valid'' \<and> datasets (dataset q) = Some df \<longrightarrow>
               review_question L datasets q (good, rejected)
                 = Inr (good, rejected @ [(q, Reasons (reasons ev))]))"
proof -
  let ?msg = "''Grouping by '' @ column q @ '' has too many unique values (''
               @ str_nat (nunique s) @ '')''"
  define ev0 where "ev0 = check_identifier_aggregation q
      \<lparr>makes_sense = True, reasons = [], actual_result = None, is_meaningful = True\<rparr>"
  define ev1 where "ev1 = ev0\<lparr>makes_sense := False, reasons := reasons ev0 @ [?msg]\<rparr>"
  define ev where "ev = check_patterns (lower (question q)) odd_patterns
      (check_execution L q df ev1)"
  have rows: "len_df df \<noteq> 0"
  proof
    assume "len_df df = 0"
    with ratio show False by simp
  qed
  have incol: "column q \<in> set (columns df)" using col getitem_columns by blast
  have g: "check_groupby q df ev0 = Inr ev1"
    using gb col ratio rows incol
    by (simp add: check_groupby_def py_truediv_def Let_def ev1_def)
  have e: "evaluate_question L q df = Inr ev"
    using g by (simp add: evaluate_question_def Let_def ev0_def ev_def)
  have "\<not> makes_sense ev1" by (simp add: ev1_def)
  then have ms: "\<not> makes_sense ev"
    unfolding ev_def by (intro check_patterns_keeps(1) check_execution_keeps(1))
  have "?msg \<in> set (reasons ev1)" by (simp add: ev1_def)
  then have "?msg \<in> set (reasons (check_execution L q df ev1))"
    using check_execution_keeps(2) by blast
  then have rs: "?msg \<in> set (reasons ev)"
    unfolding ev_def using check_patterns_keeps(2) by blast
  have "review_question L datasets q (good, rejected)
          = Inr (good, rejected @ [(q, Reasons (reasons ev))])"
    if "status q = ''valid''" and "datasets (dataset q) = Some df"
    using that e ms by (simp add: review_question_def)
  with e ms rs show ?thesis by blast
qed

theorem high_cardinality_groupby_rejected_witness:
  "\<exists>s ev. str_in ''groupby'' (code groupby_question)
     \<and> getitem sales_frame (column groupby_question) = Inr s
     \<and> nunique s = 4 \<and> len_df sales_frame = 5
     \<and> evaluate_question (lib_with (Inr four_means)) groupby_question sales_frame = Inr ev
     \<and> \<not> makes_sense ev
     \<and> ''Grouping by category has too many unique values (4)'' \<in> set (reasons ev)
     \<and> review_question (lib_with (Inr four_means)) [''sales.csv'' \<mapsto> sales_frame]
          groupby_question ([], [])
        = Inr ([], [(groupby_question, Reasons (reasons ev))])"
proof -
  have gb: "str_in ''groupby'' (code groupby_question)"
    by (simp add: groupby_question_def)
  obtain s where s: "getitem sales_frame (column groupby_question) = Inr s"
    and n: "nunique s = 4"
    by (simp add: getitem_def sales_frame_def groupby_question_def nunique_def dropna_def)
  have l: "len_df sales_frame = 5" by (simp add: len_df_def sales_frame_def)
  have r: "real (nunique s) / real (len_df sales_frame) > 1 / 2" using n l by simp
  have four: "str_nat 4 = ''4''" by (simp add: str_nat.simps digit_char_def)
  have st: "status groupby_question = ''valid''"
    and ds: "[''sales.csv'' \<mapsto> sales_frame] (dataset groupby_question) = Some sales_frame"
    and c: "column groupby_question = ''category''"
    by (simp_all add: groupby_question_def)
  from high_cardinality_groupby_rejected [OF gb s r,
      where L = "lib_with (Inr four_means)" and datasets = "[''sales.csv'' \<mapsto> sales_frame]"
        and good = "[]" and rejected = "[]"]
  show ?thesis using gb s n l st ds c four by auto
qed

text \<open>
  C7, as the code has it. A question whose stored status is not \<open>valid\<close> is appended to the
  rejected list with the fixed reason \<open>Invalid code\<close>, and is not run again. The message of
  an exception becomes a reason, after \<open>Code execution error: \<close>, for a question of status
  \<open>valid\<close> whose query raises when the validator runs it on a loaded frame with rows.
\<close>

theorem invalid_status_rejected:
  "(status q \<noteq> ''valid'' \<longrightarrow>
      review_question L datasets q (good, rejected)
        = Inr (good, rejected @ [(q, Reason ''Invalid code'')]))
   \<and> (status q = ''valid'' \<and> datasets (dataset q) = Some df \<and> len_df df \<noteq> 0
        \<and> eval_code L df (code q) = Inl msg \<longrightarrow>
      (\<exists>rs. review_question L datasets q (good, rejected)
               = Inr (good, rejected @ [(q, Reasons rs)])
           \<and> (''Code execution error: '' @ msg) \<in> set rs))"
proof -
  have first: "review_question L datasets q (good, rejected)
        = Inr (good, rejected @ [(q, Reason ''Invalid code'')])"
    if "status q \<noteq> ''valid''"
    using that by (simp add: review_question_def)
  have second: "\<exists>rs. review_question L datasets q (good, rejected)
               = Inr (good, rejected @ [(q, Reasons rs)])
           \<and> (''Code execution error: '' @ msg) \<in> set rs"
    if st: "status q = ''valid''" and ds: "datasets (dataset q) = Some df"
      and rows: "len_df df \<noteq> 0" and ev: "eval_code L df (code q) = Inl msg"
  proof -
    define ev0 where "ev0 = check_identifier_aggregation q
      \<lparr>makes_sense = True, reasons = [], actual_result = None, is_meaningful = True\<rparr>"
    obtain ev1 where g: "check_groupby q df ev0 = Inr ev1"
      using check_groupby_total [OF rows] by blast
    define ev2 where "ev2 = check_patterns (lower (question q)) odd_patterns
      (check_execution L q df ev1)"
    have e: "evaluate_question L q df = Inr ev2"
      using g by (simp add: evaluate_question_def Let_def ev0_def ev2_def)
    have ms: "\<not> makes_sense ev2"
      unfolding ev2_def by (intro check_patterns_keeps(1) check_execution_error(1) [OF ev])
    have "(''Code execution error: '' @ msg) \<in> set (reasons ev2)"
      unfolding ev2_def using check_patterns_keeps(2) check_execution_error(2) [OF ev] by blast
    moreover have "review_question L datasets q (good, rejected)
               = Inr (good, rejected @ [(q, Reasons (reasons ev2))])"
      using st ds e ms by (simp add: review_question_def)
    ultimately show ?thesis by blast
  qed
  from first second show ?thesis by blast
qed

theorem invalid_status_rejected_witness:
  "status failed_question \<noteq> ''valid''
   \<and> review_question (lib_with (Inl ''unsupported operand'')) [''sales.csv'' \<mapsto> sales_frame]
        failed_question ([], [])
      = Inr ([], [(failed_question, Reason ''Invalid code'')])
   \<and> (\<exists>rs. status groupby_question = ''valid'' \<and> len_df sales_frame \<noteq> 0
        \<and> review_question (lib_with (Inl ''unsupported operand''))
             [''sales.csv'' \<mapsto> sales_frame] groupby_question ([], [])
           = Inr ([], [(groupby_question, Reasons rs)])
        \<and> ''Code execution error: unsupported operand'' \<in> set rs)"
proof -
  have a: "status failed_question \<noteq> ''valid''" by (simp add: failed_question_def)
  have st: "status groupby_question = ''valid''"
    and ds: "[''sales.csv'' \<mapsto> sales_frame] (dataset groupby_question) = Some sales_frame"
    by (simp_all add: groupby_question_def)
  have l: "len_df sales_frame \<noteq> 0" by (simp add: len_df_def sales_frame_def)
  have ev: "eval_code (lib_with (Inl ''unsupported operand'')) sales_frame (code groupby_question)
      = Inl ''unsupported operand''"
    by (simp add: lib_with_def)
  from invalid_status_rejected [where q = failed_question
      and L = "lib_with (Inl ''unsupported operand'')"
      and datasets = "[''sales.csv'' \<mapsto> sales_frame]" and good = "[]" and rejected = "[]"] a
  have one: "review_question (lib_with (Inl ''unsupported operand''))
        [''sales.csv'' \<mapsto> sales_frame] failed_question ([], [])
      = Inr ([], [(failed_question, Reason ''Invalid code'')])" by simp
  from invalid_status_rejected [where q = groupby_question
      and L = "lib_with (Inl ''unsupported operand'')"
      and datasets = "[''sales.csv'' \<mapsto> sales_frame]" and good = "[]" and rejected = "[]"
      and df = sales_frame and msg = "''unsupported operand''"]
    st ds l ev
  have two: "\<exists>rs. review_question (lib_with (Inl ''unsupported operand''))
             [''sales.csv'' \<mapsto> sales_frame] groupby_question ([], [])
           = Inr ([], [(groupby_question, Reasons rs)])
        \<and> ''Code execution error: unsupported operand'' \<in> set rs" by simp
  from a one two st l show ?thesis by blast
qed

text \<open>
  C7 as stated fails: a question of pass 1 whose execution failed with the message
  \<open>unsupported operand\<close> is rejected with the reason \<open>Invalid code\<close>, which is neither that
  message nor the stored result.
\<close>

theorem invalid_status_reason_counterexample:
  "status failed_question = ''error''
   \<and> result failed_question = ''Error: unsupported operand''
   \<and> review_question (lib_with (Inl ''unsupported operand'')) [''sales.csv'' \<mapsto> sales_frame]
        failed_question ([], [])
      = Inr ([], [(failed_question, Reason ''Invalid code'')])
   \<and> Reason ''Invalid code'' \<noteq> Reason ''unsupported operand''
   \<and> Reason ''Invalid code'' \<noteq> Reason (result failed_question)
   \<and> Reason ''Invalid code'' \<noteq> Reasons [''unsupported operand'']
   \<and> Reason ''Invalid code'' \<noteq> Reasons [result failed_question]"
  by (simp add: failed_question_def review_question_def)

section \<open>Pass 1: the question bank\<close>

subsection \<open>Loops and the column analysis\<close>

lemma collect_elem:
  assumes "collect body xs = Inr qs" and "q \<in> set qs"
  shows "\<exists>x \<in> set xs. \<exists>ys. body x = Inr ys \<and> q \<in> set ys"
  using assms
proof (induction xs arbitrary: qs)
  case Nil
  then show ?case by simp
next
  case (Cons x xs)
  from Cons.prems(1) obtain ys zs where ys: "body x = Inr ys" and zs: "collect body xs = Inr zs"
    and qs: "qs = ys @ zs"
    by (auto split: sum.splits)
  show ?case
  proof (cases "q \<in> set ys")
    case True
    with ys show ?thesis by auto
  next
    case False
    with Cons.prems(2) qs have "q \<in> set zs" by simp
    with Cons.IH [OF zs] show ?thesis by auto
  qed
qed

lemma collect_rel:
  assumes "\<And>x. x \<in> set xs \<Longrightarrow> rel_sum (=) (list_all2 P) (f x) (g x)"
  shows "rel_sum (=) (list_all2 P) (collect f xs) (collect g xs)"
  using assms
proof (induction xs)
  case Nil
  then show ?case by simp
next
  case (Cons x xs)
  have head: "rel_sum (=) (list_all2 P) (f x) (g x)" using Cons.prems by simp
  have tail: "rel_sum (=) (list_all2 P) (collect f xs) (collect g xs)"
    using Cons by simp
  show ?case
  proof (cases "f x")
    case (Inl e)
    with head show ?thesis by (cases "g x") auto
  next
    case fx: (Inr ys)
    with head obtain ys' where gx: "g x = Inr ys'" and ys: "list_all2 P ys ys'"
      by (cases "g x") auto
    show ?thesis
    proof (cases "collect f xs")
      case (Inl e)
      with tail fx gx show ?thesis by (cases "collect g xs") auto
    next
      case (Inr zs)
      with tail obtain zs' where "collect g xs = Inr zs'" and "list_all2 P zs zs'"
        by (cases "collect g xs") auto
      with fx gx ys Inr show ?thesis by (simp add: list_all2_appendI)
    qed
  qed
qed

lemma set_update_subset: "set (AList.update k v al) \<subseteq> insert (k, v) (set al)"
  by (induction al) auto

lemma analyze_all_sound:
  assumes "analyze_all profile df cols acc = Inr column_analysis"
    and "\<forall>(c, a) \<in> set acc. profile df c = Inr a"
  shows "\<forall>(c, a) \<in> set column_analysis. profile df c = Inr a"
  using assms
proof (induction cols arbitrary: acc)
  case Nil
  then show ?case by simp
next
  case (Cons col cols)
  from Cons.prems(1) obtain a where a: "profile df col = Inr a"
    and rest: "analyze_all profile df cols (AList.update col a acc) = Inr column_analysis"
    by (auto split: sum.splits)
  have "\<forall>(c, a') \<in> set (AList.update col a acc). profile df c = Inr a'"
    using set_update_subset [of col a acc] Cons.prems(2) a by auto
  from Cons.IH [OF rest this] show ?case .
qed

subsection \<open>Execution\<close>

lemma execute_binding [simp]: "binding_of (execute L df b) = b"
  by (simp add: execute_def with_outcome_def binding_of_def split: sum.splits)

lemma execute_fields [simp]:
  "code (execute L df b) = code b"
  "template_id (execute L df b) = template_id b"
  "column (execute L df b) = column b"
  "other_column (execute L df b) = other_column b"
  by (simp_all add: execute_def with_outcome_def split: sum.splits)

lemma execute_outcome:
  "(\<exists>res. eval_code L df (code b) = Inr res \<and> status (execute L df b) = ''valid''
       \<and> result (execute L df b) = take 200 (printed res))
   \<or> (\<exists>msg. eval_code L df (code b) = Inl msg \<and> status (execute L df b) = ''error''
       \<and> result (execute L df b) = ''Error: '' @ msg)"
  by (cases "eval_code L df (code b)") (simp_all add: execute_def with_outcome_def)

lemma other_column_question_executed:
  assumes "other_column_question L df dn entity col t reqs other = Inr qs" and "q \<in> set qs"
  shows "\<exists>b. q = execute L df b \<and> column b = col \<and> template_id b = t_id t
           \<and> other_column b = Some (fst other)"
  using assms
  by (auto simp add: other_column_question_def split: prod.splits if_splits sum.splits)

lemma questions_for_template_executed:
  assumes "questions_for_template L df dn entity column_analysis col a t = Inr qs"
    and "q \<in> set qs"
  shows "list_all (get_flag a) (requires t)
       \<and> ((requires_other t = None
              \<and> (\<exists>b. bind_single L dn entity col a t = Inr (Some b) \<and> q = execute L df b))
           \<or> (requires_other t \<noteq> None
              \<and> (\<exists>b. q = execute L df b \<and> column b = col \<and> template_id b = t_id t
                    \<and> other_column b \<noteq> None)))"
proof (cases "requires_other t")
  case None
  with assms show ?thesis
    by (auto simp add: questions_for_template_def split: if_splits sum.splits option.splits)
next
  case (Some reqs)
  with assms have ok: "list_all (get_flag a) (requires t)"
    and c: "collect (other_column_question L df dn entity col t reqs) column_analysis = Inr qs"
    by (auto simp add: questions_for_template_def split: if_splits)
  from collect_elem [OF c assms(2)] obtain other ys
    where "other_column_question L df dn entity col t reqs other = Inr ys" and "q \<in> set ys"
    by blast
  from other_column_question_executed [OF this] ok Some show ?thesis by auto
qed

lemma generated_question_origin:
  assumes "generate_questions_for_dataset L df dn = Inr qs" and "q \<in> set qs"
  shows "\<exists>col a t. analyze_column df col = Inr a \<and> t \<in> set generate_question_templates
           \<and> list_all (get_flag a) (requires t)
           \<and> ((requires_other t = None
                  \<and> (\<exists>b. bind_single L dn (entity_type dn) col a t = Inr (Some b)
                        \<and> q = execute L df b))
               \<or> (requires_other t \<noteq> None
                  \<and> (\<exists>b. q = execute L df b \<and> column b = col \<and> template_id b = t_id t
                        \<and> other_column b \<noteq> None)))"
proof -
  from assms(1) obtain ca where ca: "analyze_all analyze_column df (columns df) [] = Inr ca"
    and c: "collect (questions_for_column L df dn (entity_type dn) ca) ca = Inr qs"
    by (auto simp add: generate_questions_for_dataset_def split: sum.splits)
  from collect_elem [OF c assms(2)] obtain x ys where x: "x \<in> set ca"
    and ys: "questions_for_column L df dn (entity_type dn) ca x = Inr ys" and q: "q \<in> set ys"
    by blast
  have a: "analyze_column df (fst x) = Inr (snd x)"
    using analyze_all_sound [OF ca] x by auto
  from ys have "collect (questions_for_template L df dn (entity_type dn) ca (fst x) (snd x))
       generate_question_templates = Inr ys"
    by (simp add: questions_for_column_def)
  from collect_elem [OF this q] obtain t zs where t: "t \<in> set generate_question_templates"
    and zs: "questions_for_template L df dn (entity_type dn) ca (fst x) (snd x) t = Inr zs"
    and qz: "q \<in> set zs"
    by blast
  from questions_for_template_executed [OF zs qz] a t show ?thesis by blast
qed

text \<open>
  C6. Every record that pass 1 returns carries the outcome of executing its own code: when
  the evaluation returned, status \<open>valid\<close> and the printed result cut to at most 200
  characters; when it raised, status \<open>error\<close> and \<open>Error: \<close> followed by the message. No
  record depends on that outcome for being in the output: with any other evaluator the
  generator returns the records of the same bindings, in the same order.
\<close>

theorem execution_outcome_recorded:
  assumes "generate_questions_for_dataset L df dataset_name = Inr qs"
  shows "(\<forall>q \<in> set qs.
            (\<exists>res. eval_code L df (code q) = Inr res \<and> status q = ''valid''
                \<and> result q = take 200 (printed res) \<and> length (result q) \<le> 200)
          \<or> (\<exists>msg. eval_code L df (code q) = Inl msg \<and> status q = ''error''
                \<and> result q = ''Error: '' @ msg))
       \<and> (\<forall>ev. \<exists>qs'. generate_questions_for_dataset (L\<lparr>eval_code := ev\<rparr>) df dataset_name
                        = Inr qs'
                \<and> map binding_of qs' = map binding_of qs)"
proof (intro conjI ballI allI)
  fix q assume "q \<in> set qs"
  from generated_question_origin [OF assms this] obtain b where "q = execute L df b" by blast
  with execute_outcome [of L df b]
  show "(\<exists>res. eval_code L df (code q) = Inr res \<and> status q = ''valid''
                \<and> result q = take 200 (printed res) \<and> length (result q) \<le> 200)
          \<or> (\<exists>msg. eval_code L df (code q) = Inl msg \<and> status q = ''error''
                \<and> result q = ''Error: '' @ msg)"
    by auto
next
  fix ev
  let ?L' = "L\<lparr>eval_code := ev\<rparr>"
  let ?P = "\<lambda>q q'. binding_of q = binding_of q'"
  have str: "py_str ?L' = py_str L"
    by (auto simp add: py_str_def fun_eq_iff split: cell.splits)
  have bind: "bind_single ?L' dn e col a t = bind_single L dn e col a t" for dn e col a t
    unfolding bind_single_def str by (rule refl)
  have other: "rel_sum (=) (list_all2 ?P) (other_column_question L df dn e col t reqs x)
      (other_column_question ?L' df dn e col t reqs x)" for dn e col t reqs x
    by (auto simp add: other_column_question_def split: prod.splits sum.splits)
  have tmpl: "rel_sum (=) (list_all2 ?P) (questions_for_template L df dn e ca col a t)
      (questions_for_template ?L' df dn e ca col a t)" for dn e ca col a t
  proof (cases "requires_other t")
    case None
    then show ?thesis
      by (auto simp add: questions_for_template_def bind split: sum.splits option.splits)
  next
    case (Some reqs)
    then show ?thesis
      using collect_rel [of ca ?P "other_column_question L df dn e col t reqs"
          "other_column_question ?L' df dn e col t reqs", OF other]
      by (simp add: questions_for_template_def)
  qed
  have colm: "rel_sum (=) (list_all2 ?P) (questions_for_column L df dn e ca x)
      (questions_for_column ?L' df dn e ca x)" for dn e ca x
    unfolding questions_for_column_def by (rule collect_rel) (rule tmpl)
  have "rel_sum (=) (list_all2 ?P) (generate_questions_for_dataset L df dataset_name)
      (generate_questions_for_dataset ?L' df dataset_name)"
  proof (cases "analyze_all analyze_column df (columns df) []")
    case (Inl e)
    then show ?thesis by (simp add: generate_questions_for_dataset_def)
  next
    case (Inr ca)
    then show ?thesis
      using collect_rel [of ca ?P "questions_for_column L df dataset_name
            (entity_type dataset_name) ca"
          "questions_for_column ?L' df dataset_name (entity_type dataset_name) ca", OF colm]
      by (simp add: generate_questions_for_dataset_def)
  qed
  with assms obtain qs' where qs': "generate_questions_for_dataset ?L' df dataset_name = Inr qs'"
    and all2: "list_all2 ?P qs qs'"
    by (cases "generate_questions_for_dataset ?L' df dataset_name") auto
  from all2 have "map binding_of qs' = map binding_of qs"
    by (induction qs qs' rule: list_all2_induct) auto
  with qs' show "\<exists>qs'. generate_questions_for_dataset ?L' df dataset_name = Inr qs'
                \<and> map binding_of qs' = map binding_of qs" by blast
qed

theorem execution_outcome_recorded_witness:
  "\<exists>qs. generate_questions_for_dataset (lib_with (Inl ''boom'')) status_frame5 ''tickets.csv''
          = Inr qs
      \<and> length qs = 5
      \<and> list_all (\<lambda>q. status q = ''error'' \<and> result q = ''Error: boom'') qs
      \<and> (\<exists>qs'. generate_questions_for_dataset (lib_with (Inr long_series)) status_frame5
                   ''tickets.csv'' = Inr qs'
             \<and> map binding_of qs' = map binding_of qs
             \<and> list_all (\<lambda>q. status q = ''valid'' \<and> length (result q) = 200) qs')"
proof -
  let ?L = "lib_with (Inl ''boom'')"
  let ?L' = "lib_with (Inr long_series)"
  have "map_sum id length (generate_questions_for_dataset ?L status_frame5 ''tickets.csv'')
      = Inr 5"
    by code_simp
  then obtain qs where g: "generate_questions_for_dataset ?L status_frame5 ''tickets.csv'' = Inr qs"
    and n: "length qs = 5"
    by (cases "generate_questions_for_dataset ?L status_frame5 ''tickets.csv''") auto
  have upd: "?L\<lparr>eval_code := (\<lambda>df c. Inr long_series)\<rparr> = ?L'"
    by (simp add: lib_with_def)
  from execution_outcome_recorded [OF g]
  have failed: "list_all (\<lambda>q. status q = ''error'' \<and> result q = ''Error: boom'') qs"
    by (auto simp add: list_all_iff lib_with_def)
  from execution_outcome_recorded [OF g] upd
  obtain qs' where g': "generate_questions_for_dataset ?L' status_frame5 ''tickets.csv'' = Inr qs'"
    and same: "map binding_of qs' = map binding_of qs"
    by metis
  from execution_outcome_recorded [OF g']
  have "list_all (\<lambda>q. status q = ''valid'' \<and> length (result q) = 200) qs'"
    by (auto simp add: list_all_iff lib_with_def long_series_def)
  with g n failed g' same show ?thesis by blast
qed


subsection \<open>Where a question of pass 1 comes from\<close>

lemma bind_single_fields:
  assumes "bind_single L dn entity col a t = Inr (Some b)"
  shows "column b = col" and "template_id b = t_id t" and "other_column b = None"
  using assms
  by (auto simp add: bind_single_def Let_def
      split: if_splits list.splits sum.splits option.splits cell.splits)

lemma generated_question_template:
  assumes "generate_questions_for_dataset L df dn = Inr qs" and "q \<in> set qs"
  shows "\<exists>a t. analyze_column df (column q) = Inr a \<and> t \<in> set generate_question_templates
           \<and> template_id q = t_id t \<and> list_all (get_flag a) (requires t)
           \<and> (requires_other t = None \<longrightarrow>
                 (\<exists>b. bind_single L dn (entity_type dn) (column q) a t = Inr (Some b)
                     \<and> q = execute L df b))"
proof -
  from generated_question_origin [OF assms] obtain col a t
    where a: "analyze_column df col = Inr a" and t: "t \<in> set generate_question_templates"
      and ok: "list_all (get_flag a) (requires t)"
      and src: "(requires_other t = None
                  \<and> (\<exists>b. bind_single L dn (entity_type dn) col a t = Inr (Some b)
                        \<and> q = execute L df b))
               \<or> (requires_other t \<noteq> None
                  \<and> (\<exists>b. q = execute L df b \<and> column b = col \<and> template_id b = t_id t
                        \<and> other_column b \<noteq> None))"
    by blast
  from src show ?thesis
  proof
    assume "requires_other t = None
        \<and> (\<exists>b. bind_single L dn (entity_type dn) col a t = Inr (Some b) \<and> q = execute L df b)"
    then obtain b where b: "bind_single L dn (entity_type dn) col a t = Inr (Some b)"
      and q: "q = execute L df b" by blast
    have "column q = col" and "template_id q = t_id t"
      using bind_single_fields(1,2) [OF b] q by simp_all
    with a t ok b q show ?thesis by (intro exI [of _ a] exI [of _ t]) simp
  next
    assume "requires_other t \<noteq> None
        \<and> (\<exists>b. q = execute L df b \<and> column b = col \<and> template_id b = t_id t
              \<and> other_column b \<noteq> None)"
    then obtain b where "requires_other t \<noteq> None" and "q = execute L df b"
      and "column b = col" and "template_id b = t_id t" by blast
    then have "column q = col" and "template_id q = t_id t" and "requires_other t \<noteq> None"
      by simp_all
    with a t ok show ?thesis by (intro exI [of _ a] exI [of _ t]) auto
  qed
qed

lemma identifier_flags:
  assumes "analyze_column df col = Inr a" and "get_flag a ''is_identifier''"
  shows "flags a = [''is_numeric'' \<mapsto> True, ''can_sum'' \<mapsto> False, ''can_mean'' \<mapsto> False,
            ''can_rank'' \<mapsto> True, ''is_identifier'' \<mapsto> True]"
proof -
  from assms(1) obtain s where s: "getitem df col = Inr s"
    by (auto simp add: analyze_column_def split: sum.splits)
  let ?x = "real (nunique s) / real (len_df df)"
  have fl: "flags a = (if is_numeric_dtype (dtype s) then numeric_flags ''can_rank'' col ?x
                    else categorical_flags ?x)"
    by (rule analyze_column_Inr(2) [OF assms(1) s])
  have num: "is_numeric_dtype (dtype s)"
  proof (rule ccontr)
    assume "\<not> is_numeric_dtype (dtype s)"
    with fl assms(2) show False by (simp add: get_flag_def categorical_flags_eq)
  qed
  have "?x > 9 / 10 \<or> str_in ''id'' (lower col) \<or> str_in ''number'' (lower col)"
  proof (rule ccontr)
    assume "\<not> (?x > 9 / 10 \<or> str_in ''id'' (lower col) \<or> str_in ''number'' (lower col))"
    from numeric_flags_plain [OF this, of "''can_rank''"] fl num assms(2)
    show False by (simp add: get_flag_def)
  qed
  from numeric_flags_identifier [OF this, of "''can_rank''"] fl num show ?thesis by simp
qed

lemma identifier_templates:
  assumes "flags a = [''is_numeric'' \<mapsto> True, ''can_sum'' \<mapsto> False, ''can_mean'' \<mapsto> False,
            ''can_rank'' \<mapsto> True, ''is_identifier'' \<mapsto> True]"
    and "t \<in> set generate_question_templates"
    and "list_all (get_flag a) (requires t)"
  shows "t_id t \<in> {''max_value'', ''nlargest'', ''filter_greater''}"
  using assms(2,3) unfolding generate_question_templates_def
  by (auto simp add: entry_def get_flag_def assms(1))


subsection \<open>The \<open>filter_equals\<close> template\<close>

lemma filter_equals_catalog:
  assumes "t \<in> set generate_question_templates" and "t_id t = ''filter_equals''"
  shows "requires t = [''is_categorical'']" and "requires_other t = None"
    and "needs_value t"
    and "template t = ''How many {entity}s have {column} equal to \"{value}\"?''"
    and "code_template t = ''len(df[df['{column}'] == '{value}'])''"
  using assms unfolding generate_question_templates_def
  by (auto simp add: entry_def)

lemma format_filter_equals:
  "\<exists>qtext. format ''How many {entity}s have {column} equal to \"{value}\"?''
      [(''entity'', e), (''column'', c), (''value'', v)] = Inr qtext"
  "format ''len(df[df['{column}'] == '{value}'])'' [(''column'', c), (''value'', x)]
     = Inr (''len(df[df['' @ quoted c @ ''] == '' @ quoted x @ ''])'')"
  by (simp_all add: format_def quoted_def)

lemma categorical_profile:
  assumes "analyze_column df col = Inr a" and "getitem df col = Inr s"
    and "get_flag a ''is_categorical''"
  shows "\<not> is_numeric_dtype (dtype s)" and "flags a ''is_numeric'' = Some False"
proof -
  let ?x = "real (nunique s) / real (len_df df)"
  have fl: "flags a = (if is_numeric_dtype (dtype s) then numeric_flags ''can_rank'' col ?x
                    else categorical_flags ?x)"
    by (rule analyze_column_Inr(2) [OF assms(1,2)])
  show cat: "\<not> is_numeric_dtype (dtype s)"
  proof
    assume num: "is_numeric_dtype (dtype s)"
    show False
    proof (cases "?x > 9 / 10 \<or> str_in ''id'' (lower col) \<or> str_in ''number'' (lower col)")
      case True
      from numeric_flags_identifier [OF this, of "''can_rank''"] fl num assms(3)
      show False by (simp add: get_flag_def)
    next
      case False
      from numeric_flags_plain [OF this, of "''can_rank''"] fl num assms(3)
      show False by (simp add: get_flag_def)
    qed
  qed
  with fl show "flags a ''is_numeric'' = Some False" by (simp add: categorical_flags_eq)
qed

text \<open>
  C10, as the code has it. Every question that pass 1 returns for the template
  \<open>filter_equals\<close> is bound to a column that is not numeric and has a non-missing value; its
  code is the template with the first such value wrapped in single quotes twice,
  \<open>len(df[df['col'] == ''value''])\<close>; and its status is \<open>error\<close> exactly when the evaluation
  of that string raises, \<open>valid\<close> exactly when it returns.
\<close>

theorem filter_equals_double_quoted:
  assumes gen: "generate_questions_for_dataset L df dataset_name = Inr qs"
    and q: "q \<in> set qs"
    and fe: "template_id q = ''filter_equals''"
  shows "\<exists>s v vs. getitem df (column q) = Inr s \<and> \<not> is_numeric_dtype (dtype s)
           \<and> dropna s = v # vs
           \<and> code q = ''len(df[df['' @ quoted (column q) @ ''] == ''
                        @ quoted (quoted (py_str L v)) @ ''])''
           \<and> (status q = ''error'' \<longleftrightarrow> (\<exists>msg. eval_code L df (code q) = Inl msg))
           \<and> (status q = ''valid'' \<longleftrightarrow> (\<exists>res. eval_code L df (code q) = Inr res))"
proof -
  from generated_question_template [OF gen q] fe obtain a t
    where a: "analyze_column df (column q) = Inr a"
      and t: "t \<in> set generate_question_templates" and tid: "t_id t = ''filter_equals''"
      and ok: "list_all (get_flag a) (requires t)"
      and src: "requires_other t = None \<longrightarrow>
                 (\<exists>b. bind_single L dataset_name (entity_type dataset_name) (column q) a t
                        = Inr (Some b) \<and> q = execute L df b)"
    by auto
  note e = filter_equals_catalog [OF t tid]
  from src e(2) obtain b
    where b: "bind_single L dataset_name (entity_type dataset_name) (column q) a t = Inr (Some b)"
      and qb: "q = execute L df b"
    by blast
  from a obtain s where s: "getitem df (column q) = Inr s"
    by (auto simp add: analyze_column_def split: sum.splits)
  from ok e(1) have cat: "get_flag a ''is_categorical''" by simp
  note prof = categorical_profile [OF a s cat]
  have sv: "sample_values a = take 5 (dropna s)" by (rule analyze_column_Inr(3) [OF a s])
  obtain v vs' where vs': "sample_values a = v # vs'"
    using b e(3) by (cases "sample_values a") (auto simp add: bind_single_def)
  with sv obtain vs where vs: "dropna s = v # vs"
    by (cases "dropna s") auto
  obtain qtext where qtext: "format (template t)
      [(''entity'', entity_type dataset_name), (''column'', column q), (''value'', py_str L v)]
      = Inr qtext"
    using format_filter_equals(1) e(4) by metis
  have "code b = ''len(df[df['' @ quoted (column q) @ ''] == ''
                        @ quoted (quoted (py_str L v)) @ ''])''"
    using b e(3) vs' qtext prof(2) format_filter_equals(2) [of "column q" "quoted (py_str L v)"]
    by (auto simp add: bind_single_def e(5))
  then have c: "code q = ''len(df[df['' @ quoted (column q) @ ''] == ''
                        @ quoted (quoted (py_str L v)) @ ''])''"
    using qb by simp
  have st: "(status q = ''error'' \<longleftrightarrow> (\<exists>msg. eval_code L df (code q) = Inl msg))
      \<and> (status q = ''valid'' \<longleftrightarrow> (\<exists>res. eval_code L df (code q) = Inr res))"
    using execute_outcome [of L df b] qb by auto
  from s prof(1) vs c st show ?thesis by blast
qed

theorem filter_equals_double_quoted_witness:
  "\<exists>qs q s. generate_questions_for_dataset (lib_with (Inl ''invalid syntax'')) status_frame5
               ''tickets.csv'' = Inr qs
      \<and> q \<in> set qs \<and> template_id q = ''filter_equals''
      \<and> getitem status_frame5 (column q) = Inr s \<and> \<not> is_numeric_dtype (dtype s)
      \<and> dropna s = cells s \<and> hd (cells s) = Str ''open''
      \<and> code q = ''len(df[df['' @ quoted ''status'' @ ''] == ''
                    @ quoted (quoted ''open'') @ ''])''
      \<and> status q = ''error''"
proof -
  let ?L = "lib_with (Inl ''invalid syntax'')"
  have "map_sum id (map (\<lambda>q. (template_id q, column q)))
          (generate_questions_for_dataset ?L status_frame5 ''tickets.csv'')
        = Inr [(''value_counts_basic'', ''status''), (''value_counts_top'', ''status''),
               (''unique_count'', ''status''), (''filter_equals'', ''status''),
               (''string_contains'', ''status'')]"
    by code_simp
  then obtain qs where g: "generate_questions_for_dataset ?L status_frame5 ''tickets.csv'' = Inr qs"
    and m: "map (\<lambda>q. (template_id q, column q)) qs
        = [(''value_counts_basic'', ''status''), (''value_counts_top'', ''status''),
           (''unique_count'', ''status''), (''filter_equals'', ''status''),
           (''string_contains'', ''status'')]"
    by (cases "generate_questions_for_dataset ?L status_frame5 ''tickets.csv''") auto
  define q where "q = qs ! 3"
  have "length (map (\<lambda>q. (template_id q, column q)) qs) = 5" unfolding m by simp
  then have len: "length qs = 5" by simp
  then have q: "q \<in> set qs" unfolding q_def by simp
  have "(template_id q, column q) = map (\<lambda>q. (template_id q, column q)) qs ! 3"
    unfolding q_def using len by simp
  with m have fe: "template_id q = ''filter_equals''" and c: "column q = ''status''"
    by simp_all
  from filter_equals_double_quoted [OF g q fe] obtain s v vs
    where s: "getitem status_frame5 (column q) = Inr s" and cat: "\<not> is_numeric_dtype (dtype s)"
      and vs: "dropna s = v # vs"
      and cd: "code q = ''len(df[df['' @ quoted (column q) @ ''] == ''
                        @ quoted (quoted (py_str ?L v)) @ ''])''"
      and st: "status q = ''error'' \<longleftrightarrow> (\<exists>msg. eval_code ?L status_frame5 (code q) = Inl msg)"
    by blast
  from s c have cells: "cells s = [Str ''open'', Str ''open'', Str ''closed'', Str ''closed'',
      Str ''open'']"
    by (auto simp add: getitem_def status_frame5_def)
  then have d: "dropna s = cells s" by (simp add: dropna_def)
  with vs cells have v: "v = Str ''open''" by simp
  have "status q = ''error''" using st by (simp add: lib_with_def)
  with g q fe s cat d cells cd v c show ?thesis
    by (auto simp add: py_str_def)
qed

text \<open>
  C10 as stated fails. The first value of the column \<open>sign\<close> is a plus sign, the query of
  its \<open>filter_equals\<close> question is \<open>len(df[df['sign'] == ''+''])\<close>, and with the outcome
  Python has for it the record has status \<open>valid\<close> and result \<open>0\<close>.
\<close>

theorem filter_equals_valid_counterexample:
  "map_sum id (map (\<lambda>q. (template_id q, code q = signs_query, status q, result q)))
     (generate_questions_for_dataset signs_lib signs_frame ''signs.csv'')
   = Inr [(''value_counts_basic'', False, ''error'', ''Error: not evaluated''),
          (''value_counts_top'', False, ''error'', ''Error: not evaluated''),
          (''unique_count'', False, ''error'', ''Error: not evaluated''),
          (''filter_equals'', True, ''valid'', ''0''),
          (''string_contains'', False, ''error'', ''Error: not evaluated'')]"
  by code_simp

section \<open>The v2 generator\<close>

subsection \<open>Where a question of v2 comes from\<close>

lemma collect_st_elem:
  assumes "collect_st body xs st = Inr (qs, st')" and "q \<in> set qs"
  shows "\<exists>x \<in> set xs. \<exists>s ys s'. body x s = Inr (ys, s') \<and> q \<in> set ys"
  using assms
proof (induction xs arbitrary: st qs)
  case Nil
  then show ?case by simp
next
  case (Cons x xs)
  from Cons.prems(1) obtain ys s1 zs where ys: "body x st = Inr (ys, s1)"
    and zs: "collect_st body xs s1 = Inr (zs, st')" and qs: "qs = ys @ zs"
    by (auto split: sum.splits prod.splits)
  show ?case
  proof (cases "q \<in> set ys")
    case True
    with ys show ?thesis by auto
  next
    case False
    with Cons.prems(2) qs have "q \<in> set zs" by simp
    with Cons.IH [OF zs] show ?thesis by auto
  qed
qed

lemma make_question_fields:
  assumes "make_question df dn ca t n preview_cols ctx qtext c hint = Inr q"
  shows "fst (p_dataPreview q) = preview_cols" and "p_code q = c" and "p_question q = qtext"
  using assms
  by (auto simp add: make_question_def preview_data_def split: sum.splits)

lemma single_question_v2_primary:
  assumes "single_question_v2 df dn entity ca col t n qtext c = Inr q"
  shows "fst (p_dataPreview q) \<noteq> [] \<and> hd (fst (p_dataPreview q)) = col"
proof -
  from assms obtain preview_cols ctx hint
    where m: "make_question df dn ca t n preview_cols ctx qtext c hint = Inr q"
      and p: "preview_cols \<noteq> [] \<and> hd preview_cols = col"
    by (auto simp add: single_question_v2_def split: sum.splits list.splits if_splits)
  from make_question_fields(1) [OF m] p show ?thesis by simp
qed

lemma other_question_v2_primary:
  assumes "other_question_v2 df dn entity ca col t n other_col = Inr q"
  shows "fst (p_dataPreview q) \<noteq> [] \<and> hd (fst (p_dataPreview q)) = col"
proof -
  from assms obtain preview_cols ctx qtext c hint
    where m: "make_question df dn ca t n preview_cols ctx qtext c hint = Inr q"
      and p: "preview_cols \<noteq> [] \<and> hd preview_cols = col"
    by (auto simp add: other_question_v2_def split: sum.splits if_splits)
  from make_question_fields(1) [OF m] p show ?thesis by simp
qed

lemma other_columns_v2_primary:
  assumes "other_columns_v2 df dn entity ca col t reqs others n = Inr (qs, n')"
    and "q \<in> set qs"
  shows "fst (p_dataPreview q) \<noteq> [] \<and> hd (fst (p_dataPreview q)) = col"
  using assms
proof (induction others arbitrary: n qs)
  case Nil
  then show ?case by simp
next
  case (Cons other others)
  obtain other_col other_analysis where o: "other = (other_col, other_analysis)"
    by (cases other)
  show ?case
  proof (cases "other_col = col \<or> get_flag other_analysis ''is_identifier''
      \<or> \<not> list_ex (\<lambda>req. req = ''any'' \<or> get_flag other_analysis req) reqs")
    case True
    with Cons.prems(1) o
    have "other_columns_v2 df dn entity ca col t reqs others n = Inr (qs, n')"
      by (simp split: if_splits)
    from Cons.IH [OF this Cons.prems(2)] show ?thesis .
  next
    case False
    with Cons.prems(1) o obtain q0
      where q0: "other_question_v2 df dn entity ca col t n other_col = Inr q0"
        and rest: "(qs = [q0] \<and> n' = n + 1)
           \<or> (\<exists>qs1. other_columns_v2 df dn entity ca col t reqs others (n + 1) = Inr (qs1, n')
                 \<and> qs = q0 # qs1)"
      by (auto split: sum.splits if_splits prod.splits)
    show ?thesis
    proof (cases "q = q0")
      case True
      with other_question_v2_primary [OF q0] show ?thesis by simp
    next
      case False
      with rest Cons.prems(2) obtain qs1
        where "other_columns_v2 df dn entity ca col t reqs others (n + 1) = Inr (qs1, n')"
          and "q \<in> set qs1"
        by auto
      from Cons.IH [OF this] show ?thesis .
    qed
  qed
qed

lemma questions_for_template_v2_primary:
  assumes "questions_for_template_v2 L rb df dn entity ca col a t st = Inr (qs, st')"
    and "q \<in> set qs"
  shows "fst (p_dataPreview q) \<noteq> [] \<and> hd (fst (p_dataPreview q)) = col"
proof (cases "requires_other t")
  case None
  with assms obtain n qtext c
    where "single_question_v2 df dn entity ca col t n qtext c = Inr q"
    by (auto simp add: questions_for_template_v2_def
        split: prod.splits if_splits sum.splits option.splits)
  from single_question_v2_primary [OF this] show ?thesis .
next
  case (Some reqs)
  with assms obtain n n'
    where "other_columns_v2 df dn entity ca col t reqs ca n = Inr (qs, n')"
    by (auto simp add: questions_for_template_v2_def
        split: prod.splits if_splits sum.splits)
  from other_columns_v2_primary [OF this assms(2)] show ?thesis .
qed

lemma questions_for_column_v2_primary:
  assumes "questions_for_column_v2 L rb df dn entity ca x st = Inr (qs, st')"
    and "q \<in> set qs"
  shows "\<not> get_flag (snd x) ''is_identifier''
       \<and> fst (p_dataPreview q) \<noteq> [] \<and> hd (fst (p_dataPreview q)) = fst x"
proof (cases "get_flag (snd x) ''is_identifier''")
  case True
  with assms show ?thesis by (simp add: questions_for_column_v2_def)
next
  case False
  with assms(1) have "collect_st
      (questions_for_template_v2 L rb df dn entity ca (fst x) (snd x))
      generate_question_templates_v2 st = Inr (qs, st')"
    by (simp add: questions_for_column_v2_def)
  from collect_st_elem [OF this assms(2)] obtain t s ys s'
    where "questions_for_template_v2 L rb df dn entity ca (fst x) (snd x) t s = Inr (ys, s')"
      and "q \<in> set ys"
    by blast
  from questions_for_template_v2_primary [OF this] False show ?thesis by simp
qed

lemma generated_v2_primary:
  assumes "generate_questions_for_dataset_v2 L rb df dn r = Inr (qs, r')" and "q \<in> set qs"
  shows "\<exists>col a. fst (p_dataPreview q) \<noteq> [] \<and> hd (fst (p_dataPreview q)) = col
           \<and> analyze_column_v2 df col = Inr a \<and> \<not> get_flag a ''is_identifier''"
proof -
  from assms(1) obtain ca st'
    where ca: "analyze_all analyze_column_v2 df (columns df) [] = Inr ca"
      and c: "collect_st (questions_for_column_v2 L rb df dn (entity_type_v2 dn) ca) ca (1, r)
                = Inr (qs, st')"
    by (auto simp add: generate_questions_for_dataset_v2_def split: sum.splits prod.splits)
  from collect_st_elem [OF c assms(2)] obtain x s ys s' where x: "x \<in> set ca"
    and ys: "questions_for_column_v2 L rb df dn (entity_type_v2 dn) ca x s = Inr (ys, s')"
    and q: "q \<in> set ys"
    by blast
  have a: "analyze_column_v2 df (fst x) = Inr (snd x)"
    using analyze_all_sound [OF ca] x by auto
  from questions_for_column_v2_primary [OF ys q] a show ?thesis by blast
qed


text \<open>
  C1, as the code has it. In v2 the first preview column of every question returned, which
  is the column the question is bound to, is a column whose profile is not
  identifier-like. Pass 1 has no such skip: a question whose column was profiled as
  identifier-like comes from one of the templates \<open>max_value\<close>, \<open>nlargest\<close> and
  \<open>filter_greater\<close>, which require neither \<open>can_sum\<close> nor \<open>can_mean\<close>.
\<close>

theorem identifier_columns_skipped:
  "(generate_questions_for_dataset_v2 L rb df dataset_name r = Inr (qs, r') \<and> q \<in> set qs \<longrightarrow>
      (\<exists>col a. fst (p_dataPreview q) \<noteq> [] \<and> hd (fst (p_dataPreview q)) = col
          \<and> analyze_column_v2 df col = Inr a \<and> \<not> get_flag a ''is_identifier''))
   \<and> (generate_questions_for_dataset L df dataset_name = Inr qs1 \<and> q1 \<in> set qs1
        \<and> analyze_column df (column q1) = Inr a1 \<and> get_flag a1 ''is_identifier'' \<longrightarrow>
      template_id q1 \<in> {''max_value'', ''nlargest'', ''filter_greater''})"
proof (intro conjI impI)
  assume h: "generate_questions_for_dataset_v2 L rb df dataset_name r = Inr (qs, r') \<and> q \<in> set qs"
  from h have g: "generate_questions_for_dataset_v2 L rb df dataset_name r = Inr (qs, r')"
    and q: "q \<in> set qs" by simp_all
  from generated_v2_primary [OF g q]
  show "\<exists>col a. fst (p_dataPreview q) \<noteq> [] \<and> hd (fst (p_dataPreview q)) = col
          \<and> analyze_column_v2 df col = Inr a \<and> \<not> get_flag a ''is_identifier''" .
next
  assume h: "generate_questions_for_dataset L df dataset_name = Inr qs1 \<and> q1 \<in> set qs1
        \<and> analyze_column df (column q1) = Inr a1 \<and> get_flag a1 ''is_identifier''"
  from h have g: "generate_questions_for_dataset L df dataset_name = Inr qs1"
    and q: "q1 \<in> set qs1" and a1: "analyze_column df (column q1) = Inr a1"
    and i1: "get_flag a1 ''is_identifier''" by simp_all
  from generated_question_template [OF g q] obtain a t
    where a: "analyze_column df (column q1) = Inr a"
      and t: "t \<in> set generate_question_templates" and tid: "template_id q1 = t_id t"
      and ok: "list_all (get_flag a) (requires t)"
    by (elim exE conjE)
  from a a1 have eq: "a = a1" by simp
  have fl: "flags a = [''is_numeric'' \<mapsto> True, ''can_sum'' \<mapsto> False,
      ''can_mean'' \<mapsto> False, ''can_rank'' \<mapsto> True, ''is_identifier'' \<mapsto> True]"
    using a1 i1 unfolding eq by (rule identifier_flags)
  from identifier_templates [OF fl t ok] tid
  show "template_id q1 \<in> {''max_value'', ''nlargest'', ''filter_greater''}" by simp
qed

theorem identifier_columns_skipped_witness:
  "(\<exists>qs r' a. generate_questions_for_dataset_v2 (lib_with (Inl [])) counter_rng tickets_frame
                 ''tickets.csv'' 0 = Inr (qs, r')
       \<and> length qs = 8
       \<and> list_all (\<lambda>q. hd (fst (p_dataPreview q)) = ''status'') qs
       \<and> analyze_column_v2 tickets_frame ''ticket_id'' = Inr a \<and> get_flag a ''is_identifier'')
   \<and> (\<exists>qs1 a1. generate_questions_for_dataset (lib_with (Inl [])) tickets_frame ''tickets.csv''
                  = Inr qs1
       \<and> analyze_column tickets_frame ''ticket_id'' = Inr a1 \<and> get_flag a1 ''is_identifier''
       \<and> map template_id (filter (\<lambda>q. column q = ''ticket_id'') qs1)
            = [''max_value'', ''nlargest'', ''filter_greater''])"
proof -
  let ?L = "lib_with (Inl [])"
  have "map_sum id (\<lambda>p. length (fst p))
          (generate_questions_for_dataset_v2 ?L counter_rng tickets_frame ''tickets.csv'' 0)
        = Inr 8"
    by code_simp
  then obtain qs r' where g: "generate_questions_for_dataset_v2 ?L counter_rng tickets_frame
       ''tickets.csv'' 0 = Inr (qs, r')" and n: "length qs = 8"
    by (cases "generate_questions_for_dataset_v2 ?L counter_rng tickets_frame ''tickets.csv'' 0")
      auto
  have "map_sum id (\<lambda>a. get_flag a ''is_identifier'') (analyze_column_v2 tickets_frame ''ticket_id'')
      = Inr True"
    by code_simp
  then obtain a where a: "analyze_column_v2 tickets_frame ''ticket_id'' = Inr a"
    and ia: "get_flag a ''is_identifier''"
    by (cases "analyze_column_v2 tickets_frame ''ticket_id''") auto
  have prim: "hd (fst (p_dataPreview q)) = ''status''" if q: "q \<in> set qs" for q
  proof -
    from identifier_columns_skipped [where L = ?L and rb = counter_rng and df = tickets_frame
        and dataset_name = "''tickets.csv''" and r = 0 and qs = qs and r' = r' and q = q]
    have "\<exists>col b. fst (p_dataPreview q) \<noteq> [] \<and> hd (fst (p_dataPreview q)) = col
          \<and> analyze_column_v2 tickets_frame col = Inr b \<and> \<not> get_flag b ''is_identifier''"
      using g q by simp
    then obtain col b where h: "hd (fst (p_dataPreview q)) = col"
      and b: "analyze_column_v2 tickets_frame col = Inr b" and nb: "\<not> get_flag b ''is_identifier''"
      by (elim exE conjE)
    from b obtain s where "getitem tickets_frame col = Inr s"
      by (auto simp add: analyze_column_v2_def split: sum.splits)
    then have "col \<in> set (columns tickets_frame)"
      using getitem_columns [of tickets_frame col] by simp
    then have "col = ''ticket_id'' \<or> col = ''status''"
      by (simp add: columns_def tickets_frame_def)
    moreover have "col \<noteq> ''ticket_id''" using a ia b nb by auto
    ultimately show ?thesis using h by simp
  qed
  have one: "list_all (\<lambda>q. hd (fst (p_dataPreview q)) = ''status'') qs"
    using prim by (simp add: list_all_iff)
  have "map_sum id (\<lambda>qs. map template_id (filter (\<lambda>q. column q = ''ticket_id'') qs))
          (generate_questions_for_dataset ?L tickets_frame ''tickets.csv'')
        = Inr [''max_value'', ''nlargest'', ''filter_greater'']"
    by code_simp
  then obtain qs1 where g1: "generate_questions_for_dataset ?L tickets_frame ''tickets.csv'' = Inr qs1"
    and m1: "map template_id (filter (\<lambda>q. column q = ''ticket_id'') qs1)
            = [''max_value'', ''nlargest'', ''filter_greater'']"
    by (cases "generate_questions_for_dataset ?L tickets_frame ''tickets.csv''") auto
  have "map_sum id (\<lambda>a. get_flag a ''is_identifier'') (analyze_column tickets_frame ''ticket_id'')
      = Inr True"
    by code_simp
  then obtain a1 where a1: "analyze_column tickets_frame ''ticket_id'' = Inr a1"
    and ia1: "get_flag a1 ''is_identifier''"
    by (cases "analyze_column tickets_frame ''ticket_id''") auto
  have first: "\<exists>qs r' a. generate_questions_for_dataset_v2 ?L counter_rng tickets_frame
                 ''tickets.csv'' 0 = Inr (qs, r')
       \<and> length qs = 8
       \<and> list_all (\<lambda>q. hd (fst (p_dataPreview q)) = ''status'') qs
       \<and> analyze_column_v2 tickets_frame ''ticket_id'' = Inr a \<and> get_flag a ''is_identifier''"
    using g n one a ia by (intro exI [of _ qs] exI [of _ r'] exI [of _ a]) simp
  have second: "\<exists>qs1 a1. generate_questions_for_dataset ?L tickets_frame ''tickets.csv''
                  = Inr qs1
       \<and> analyze_column tickets_frame ''ticket_id'' = Inr a1 \<and> get_flag a1 ''is_identifier''
       \<and> map template_id (filter (\<lambda>q. column q = ''ticket_id'') qs1)
            = [''max_value'', ''nlargest'', ''filter_greater'']"
    using g1 a1 ia1 m1 by (intro exI [of _ qs1] exI [of _ a1]) simp
  from first second show ?thesis by (rule conjI)
qed

text \<open>
  C1 as stated fails for pass 1: the column \<open>ticket_id\<close> is profiled as identifier-like and
  is the column of three of the questions returned.
\<close>

theorem identifier_column_seeds_counterexample:
  "map_sum id (\<lambda>a. get_flag a ''is_identifier'') (analyze_column tickets_frame ''ticket_id'')
     = Inr True
   \<and> map_sum id (map (\<lambda>q. (template_id q, column q)))
       (generate_questions_for_dataset (lib_with (Inl [])) tickets_frame ''tickets.csv'')
     = Inr [(''max_value'', ''ticket_id''), (''nlargest'', ''ticket_id''),
            (''filter_greater'', ''ticket_id''),
            (''value_counts_basic'', ''status''), (''value_counts_top'', ''status''),
            (''unique_count'', ''status''), (''filter_equals'', ''status''),
            (''string_contains'', ''status'')]"
  by code_simp


subsection \<open>Values that occur more than once\<close>

lemma count_list_filter_other:
  "P v \<Longrightarrow> count_list (filter P xs) v = count_list xs v"
  by (induction xs) auto

lemma count_list_dropna:
  "v \<noteq> NaN \<Longrightarrow> count_list (dropna s) v = count_list (cells s) v"
  unfolding dropna_def by (rule count_list_filter_other)

lemma value_counts_set:
  "set (value_counts s) = (\<lambda>v. (v, count_list (dropna s) v)) ` set (dropna s)"
  by (simp add: value_counts_def unique_def)

lemma common_values_repeated:
  assumes "v \<in> set (common_values n s)"
  shows "v \<noteq> NaN" and "v \<in> set (cells s)" and "count_list (cells s) v > 1"
proof -
  from assms have "v \<in> set (map fst (filter (\<lambda>p. snd p > 1) (value_counts s)))"
    unfolding common_values_def by (rule in_set_takeD)
  then obtain c where "(v, c) \<in> set (value_counts s)" and c: "c > 1" by auto
  then have v: "v \<in> set (dropna s)" and cv: "c = count_list (dropna s) v"
    by (auto simp add: value_counts_set)
  from v show nn: "v \<noteq> NaN" and "v \<in> set (cells s)" by (simp_all add: dropna_def)
  from c cv count_list_dropna [OF nn] show "count_list (cells s) v > 1" by simp
qed

lemma common_values_none:
  assumes "\<forall>v. v \<noteq> NaN \<longrightarrow> count_list (cells s) v \<le> 1"
  shows "common_values n s = []"
proof -
  have "filter (\<lambda>p. snd p > 1) (value_counts s) = []"
  proof (rule ccontr)
    assume "filter (\<lambda>p. snd p > 1) (value_counts s) \<noteq> []"
    then obtain p where "p \<in> set (value_counts s)" and "snd p > 1"
      by (auto simp add: filter_empty_conv)
    then obtain v where v: "v \<in> set (dropna s)" and c: "count_list (dropna s) v > 1"
      by (auto simp add: value_counts_set)
    from v have "v \<noteq> NaN" by (simp add: dropna_def)
    with c count_list_dropna [of v s] assms show False by fastforce
  qed
  then show ?thesis by (simp add: common_values_def)
qed

lemma random_choice_member:
  assumes "random_choice rb r seq = Inr (v, r')"
  shows "v \<in> set seq"
  using assms by (auto simp add: random_choice_def split: prod.splits if_splits)

lemma bind_single_v2_value:
  assumes "needs_value t" and "getitem df col = Inr s"
    and "bind_single_v2 L rb df entity col a t r = Inr (Some qc, r')"
  shows "\<exists>v. v \<noteq> NaN \<and> v \<in> set (cells s) \<and> count_list (cells s) v > 1
           \<and> value_question L entity col a t v = Inr qc"
proof -
  from assms obtain v where c: "random_choice rb r (common_values 5 s) = Inr (v, r')"
    and vq: "value_question L entity col a t v = Inr qc"
    by (auto simp add: bind_single_v2_def split: if_splits sum.splits prod.splits)
  from random_choice_member [OF c] have "v \<in> set (common_values 5 s)" .
  from common_values_repeated [OF this] vq show ?thesis by blast
qed

lemma bind_single_v2_skipped:
  assumes "needs_value t" and "getitem df col = Inr s"
    and "\<forall>v. v \<noteq> NaN \<longrightarrow> count_list (cells s) v \<le> 1"
  shows "bind_single_v2 L rb df entity col a t r = Inr (None, r)"
  using assms(1,2) common_values_none [OF assms(3), of 5]
  by (simp add: bind_single_v2_def)

lemma single_question_v2_fields:
  assumes "single_question_v2 df dn entity ca col t n qtext c = Inr q"
  shows "p_question q = qtext" and "p_code q = c"
    and "p_id q = replace dn ''.csv'' [] @ ''_'' @ t_id t @ ''_'' @ zero_pad3 n"
  using assms
  by (auto simp add: single_question_v2_def make_question_def
      split: sum.splits list.splits if_splits)

lemma questions_for_template_v2_single:
  assumes "questions_for_template_v2 L rb df dn entity ca col a t (n, r) = Inr (qs, st')"
    and "q \<in> set qs" and "requires_other t = None"
  shows "\<exists>r'. bind_single_v2 L rb df entity col a t r = Inr (Some (p_question q, p_code q), r')
           \<and> p_id q = replace dn ''.csv'' [] @ ''_'' @ t_id t @ ''_'' @ zero_pad3 n"
proof -
  from assms obtain qtext c r'
    where b: "bind_single_v2 L rb df entity col a t r = Inr (Some (qtext, c), r')"
      and sq: "single_question_v2 df dn entity ca col t n qtext c = Inr q"
    by (auto simp add: questions_for_template_v2_def
        split: if_splits sum.splits option.splits prod.splits)
  from single_question_v2_fields [OF sq] b show ?thesis by simp
qed

lemma generated_v2_template:
  assumes "generate_questions_for_dataset_v2 L rb df dn r = Inr (qs, r')" and "q \<in> set qs"
  shows "\<exists>col a t n r1. analyze_column_v2 df col = Inr a
           \<and> hd (fst (p_dataPreview q)) = col
           \<and> t \<in> set generate_question_templates_v2
           \<and> (requires_other t = None \<longrightarrow>
                 (\<exists>r2. bind_single_v2 L rb df (entity_type_v2 dn) col a t r1
                         = Inr (Some (p_question q, p_code q), r2))
                 \<and> p_id q = replace dn ''.csv'' [] @ ''_'' @ t_id t @ ''_'' @ zero_pad3 n)"
proof -
  from assms(1) obtain ca st'
    where ca: "analyze_all analyze_column_v2 df (columns df) [] = Inr ca"
      and c: "collect_st (questions_for_column_v2 L rb df dn (entity_type_v2 dn) ca) ca (1, r)
                = Inr (qs, st')"
    by (auto simp add: generate_questions_for_dataset_v2_def split: sum.splits prod.splits)
  from collect_st_elem [OF c assms(2)] obtain x s ys s' where x: "x \<in> set ca"
    and ys: "questions_for_column_v2 L rb df dn (entity_type_v2 dn) ca x s = Inr (ys, s')"
    and q: "q \<in> set ys"
    by blast
  have a: "analyze_column_v2 df (fst x) = Inr (snd x)"
    using analyze_all_sound [OF ca] x by auto
  from questions_for_column_v2_primary [OF ys q]
  have ni: "\<not> get_flag (snd x) ''is_identifier''" and h: "hd (fst (p_dataPreview q)) = fst x"
    by simp_all
  from ys ni have "collect_st
      (questions_for_template_v2 L rb df dn (entity_type_v2 dn) ca (fst x) (snd x))
      generate_question_templates_v2 s = Inr (ys, s')"
    by (simp add: questions_for_column_v2_def)
  from collect_st_elem [OF this q] obtain t s1 zs s2
    where t: "t \<in> set generate_question_templates_v2"
      and zs: "questions_for_template_v2 L rb df dn (entity_type_v2 dn) ca (fst x) (snd x) t s1
                = Inr (zs, s2)"
      and qz: "q \<in> set zs"
    by blast
  obtain n r1 where s1: "s1 = (n, r1)" by (cases s1)
  have "requires_other t = None \<longrightarrow>
          (\<exists>r2. bind_single_v2 L rb df (entity_type_v2 dn) (fst x) (snd x) t r1
                         = Inr (Some (p_question q, p_code q), r2))
          \<and> p_id q = replace dn ''.csv'' [] @ ''_'' @ t_id t @ ''_'' @ zero_pad3 n"
    using questions_for_template_v2_single [OF zs [unfolded s1] qz] by blast
  with a h t show ?thesis
    by (intro exI [of _ "fst x"] exI [of _ "snd x"] exI [of _ t] exI [of _ n] exI [of _ r1])
      simp
qed


text \<open>
  C2, as the code has it. In v2, when the binding step of a template that needs a value
  returns a question text and code for a column, they are rendered with a value that is
  not missing and occurs more than once in that column; every single-column question that
  v2 returns comes from that step, run for its column and a template of the catalog; and
  when no value of the column occurs more than once, the template yields no question for
  the column, no error, and the state is unchanged. Pass 1 instead binds the first
  non-missing value of the column, repeated or not, and skips the template only for a
  column without a non-missing value.
\<close>

theorem repeated_value_bound:
  "(needs_value t \<and> getitem df col = Inr s
      \<and> bind_single_v2 L rb df entity col a t r = Inr (Some qc, r') \<longrightarrow>
      (\<exists>v. v \<noteq> NaN \<and> v \<in> set (cells s) \<and> count_list (cells s) v > 1
          \<and> value_question L entity col a t v = Inr qc))
   \<and> (generate_questions_for_dataset_v2 L rb df dataset_name r0 = Inr (qs, r1) \<and> q \<in> set qs \<longrightarrow>
      (\<exists>col' a' t' n r2. analyze_column_v2 df col' = Inr a'
          \<and> hd (fst (p_dataPreview q)) = col'
          \<and> t' \<in> set generate_question_templates_v2
          \<and> (requires_other t' = None \<longrightarrow>
                (\<exists>r3. bind_single_v2 L rb df (entity_type_v2 dataset_name) col' a' t' r2
                        = Inr (Some (p_question q, p_code q), r3))
                \<and> p_id q = replace dataset_name ''.csv'' [] @ ''_'' @ t_id t' @ ''_''
                              @ zero_pad3 n)))
   \<and> (needs_value t \<and> requires_other t = None \<and> getitem df col = Inr s
        \<and> (\<forall>v. v \<noteq> NaN \<longrightarrow> count_list (cells s) v \<le> 1) \<longrightarrow>
      questions_for_template_v2 L rb df dataset_name entity ca col a t st = Inr ([], st))
   \<and> (needs_value t \<and> analyze_column df col = Inr a1 \<and> getitem df col = Inr s
        \<and> bind_single L dataset_name entity col a1 t = Inr (Some b) \<longrightarrow>
      (\<exists>v vs num. dropna s = v # vs \<and> flags a1 ''is_numeric'' = Some num
          \<and> format (code_template t)
               [(''column'', col),
                (''value'', if num then py_str L v else quoted (py_str L v))]
             = Inr (code b)))
   \<and> (needs_value t \<and> analyze_column df col = Inr a1 \<and> getitem df col = Inr s
        \<and> dropna s = [] \<longrightarrow>
      bind_single L dataset_name entity col a1 t = Inr None)"
proof (intro conjI impI)
  assume "needs_value t \<and> getitem df col = Inr s
      \<and> bind_single_v2 L rb df entity col a t r = Inr (Some qc, r')"
  then have "needs_value t" and "getitem df col = Inr s"
    and "bind_single_v2 L rb df entity col a t r = Inr (Some qc, r')" by simp_all
  then show "\<exists>v. v \<noteq> NaN \<and> v \<in> set (cells s) \<and> count_list (cells s) v > 1
          \<and> value_question L entity col a t v = Inr qc"
    by (rule bind_single_v2_value)
next
  assume "generate_questions_for_dataset_v2 L rb df dataset_name r0 = Inr (qs, r1) \<and> q \<in> set qs"
  then have "generate_questions_for_dataset_v2 L rb df dataset_name r0 = Inr (qs, r1)"
    and "q \<in> set qs" by simp_all
  then show "\<exists>col' a' t' n r2. analyze_column_v2 df col' = Inr a'
          \<and> hd (fst (p_dataPreview q)) = col'
          \<and> t' \<in> set generate_question_templates_v2
          \<and> (requires_other t' = None \<longrightarrow>
                (\<exists>r3. bind_single_v2 L rb df (entity_type_v2 dataset_name) col' a' t' r2
                        = Inr (Some (p_question q, p_code q), r3))
                \<and> p_id q = replace dataset_name ''.csv'' [] @ ''_'' @ t_id t' @ ''_''
                              @ zero_pad3 n)"
    by (rule generated_v2_template)
next
  assume h: "needs_value t \<and> requires_other t = None \<and> getitem df col = Inr s
        \<and> (\<forall>v. v \<noteq> NaN \<longrightarrow> count_list (cells s) v \<le> 1)"
  then have nv: "needs_value t" and ro: "requires_other t = None"
    and s: "getitem df col = Inr s"
    and once: "\<forall>v. v \<noteq> NaN \<longrightarrow> count_list (cells s) v \<le> 1" by simp_all
  obtain n r where st: "st = (n, r)" by (cases st)
  have "bind_single_v2 L rb df entity col a t r = Inr (None, r)"
    using nv s once by (rule bind_single_v2_skipped)
  then show "questions_for_template_v2 L rb df dataset_name entity ca col a t st = Inr ([], st)"
    using ro st by (simp add: questions_for_template_v2_def)
next
  assume h: "needs_value t \<and> analyze_column df col = Inr a1 \<and> getitem df col = Inr s
        \<and> bind_single L dataset_name entity col a1 t = Inr (Some b)"
  then have nv: "needs_value t" and a1: "analyze_column df col = Inr a1"
    and s: "getitem df col = Inr s"
    and b: "bind_single L dataset_name entity col a1 t = Inr (Some b)" by simp_all
  have sv: "sample_values a1 = take 5 (dropna s)" by (rule analyze_column_Inr(3) [OF a1 s])
  from b nv obtain v vs' num where v: "sample_values a1 = v # vs'"
    and num: "flags a1 ''is_numeric'' = Some num"
    and c: "format (code_template t)
               [(''column'', col),
                (''value'', if num then py_str L v else quoted (py_str L v))]
             = Inr (code b)"
    by (auto simp add: bind_single_def split: list.splits sum.splits option.splits)
  from v sv obtain vs where "dropna s = v # vs" by (cases "dropna s") auto
  with num c show "\<exists>v vs num. dropna s = v # vs \<and> flags a1 ''is_numeric'' = Some num
          \<and> format (code_template t)
               [(''column'', col),
                (''value'', if num then py_str L v else quoted (py_str L v))]
             = Inr (code b)"
    by blast
next
  assume h: "needs_value t \<and> analyze_column df col = Inr a1 \<and> getitem df col = Inr s
        \<and> dropna s = []"
  then have nv: "needs_value t" and a1: "analyze_column df col = Inr a1"
    and s: "getitem df col = Inr s" and d: "dropna s = []" by simp_all
  have "sample_values a1 = []" using analyze_column_Inr(3) [OF a1 s] d by simp
  with nv show "bind_single L dataset_name entity col a1 t = Inr None"
    by (simp add: bind_single_def)
qed


theorem repeated_value_bound_witness:
  "(\<exists>a s qc r'. needs_value filter_count_entry
       \<and> getitem status_frame5 ''status'' = Inr s
       \<and> bind_single_v2 (lib_with (Inl [])) counter_rng status_frame5 ''traffic stop'' ''status''
            a filter_count_entry 1 = Inr (Some qc, r')
       \<and> snd qc = ''(df['' @ quoted ''status'' @ ''] == '' @ quoted ''closed'' @ '').sum()''
       \<and> (\<exists>v. v \<noteq> NaN \<and> v \<in> set (cells s) \<and> count_list (cells s) v > 1
             \<and> value_question (lib_with (Inl [])) ''traffic stop'' ''status'' a
                  filter_count_entry v = Inr qc))
   \<and> (\<exists>qs r1 q col. generate_questions_for_dataset_v2 (lib_with (Inl [])) counter_rng
                         status_frame5 ''tickets.csv'' 0 = Inr (qs, r1)
       \<and> q \<in> set qs \<and> p_id q = ''tickets_filter_count_003''
       \<and> hd (fst (p_dataPreview q)) = col
       \<and> (\<exists>a. analyze_column_v2 status_frame5 col = Inr a))
   \<and> (\<exists>s. needs_value filter_count_entry \<and> requires_other filter_count_entry = None
       \<and> getitem names_frame ''name'' = Inr s
       \<and> list_all (\<lambda>v. count_list (cells s) v = 1) (cells s)
       \<and> questions_for_template_v2 (lib_with (Inl [])) counter_rng names_frame ''people.csv''
            ''record'' [] ''name'' \<lparr>name = ''name'', a_dtype = Object, unique_count = 2,
               null_count = 0, sample_values = [Str ''Ann'', Str ''Bob''],
               flags = categorical_flags_v2 1\<rparr> filter_count_entry (1, 0)
          = Inr ([], (1, 0)))
   \<and> (\<exists>a1 s b. needs_value filter_equals_entry
       \<and> analyze_column names_frame ''name'' = Inr a1
       \<and> getitem names_frame ''name'' = Inr s
       \<and> bind_single (lib_with (Inl [])) ''people.csv'' ''people'' ''name'' a1
            filter_equals_entry = Inr (Some b)
       \<and> hd (dropna s) = Str ''Ann'' \<and> count_list (cells s) (Str ''Ann'') = 1
       \<and> code b = ''len(df[df['' @ quoted ''name'' @ ''] == ''
                     @ quoted (quoted ''Ann'') @ ''])'')
   \<and> (\<exists>a1 s. analyze_column blank_frame ''note'' = Inr a1
       \<and> getitem blank_frame ''note'' = Inr s \<and> dropna s = []
       \<and> bind_single (lib_with (Inl [])) ''notes.csv'' ''note'' ''note'' a1
            filter_equals_entry = Inr None)"
proof -
  let ?L = "lib_with (Inl [])"
  have nvc: "needs_value filter_count_entry" and roc: "requires_other filter_count_entry = None"
    by (simp_all add: filter_count_entry_def generate_question_templates_v2_def entry_def)
  have nve: "needs_value filter_equals_entry"
    by (simp add: filter_equals_entry_def generate_question_templates_def entry_def)
  \<comment> \<open>the binding step of v2 on a column with repeated values\<close>
  obtain s5 where s5: "getitem status_frame5 ''status'' = Inr s5"
    by (simp add: getitem_def status_frame5_def)
  have "map_sum id (\<lambda>a. map_sum id (\<lambda>p. (map_option snd (fst p), snd p))
            (bind_single_v2 ?L counter_rng status_frame5 ''traffic stop'' ''status'' a
               filter_count_entry 1))
          (analyze_column_v2 status_frame5 ''status'')
        = Inr (Inr (Some (''(df['' @ quoted ''status'' @ ''] == '' @ quoted ''closed''
                            @ '').sum()''), 2))"
    by code_simp
  then obtain a5 qc where bnd: "bind_single_v2 ?L counter_rng status_frame5 ''traffic stop''
        ''status'' a5 filter_count_entry 1 = Inr (Some qc, 2)"
    and cd: "snd qc = ''(df['' @ quoted ''status'' @ ''] == '' @ quoted ''closed'' @ '').sum()''"
    by (cases "analyze_column_v2 status_frame5 ''status''")
      (auto simp add: map_sum_def split: sum.splits)
  have "\<exists>v. v \<noteq> NaN \<and> v \<in> set (cells s5) \<and> count_list (cells s5) v > 1
          \<and> value_question ?L ''traffic stop'' ''status'' a5 filter_count_entry v = Inr qc"
    by (rule repeated_value_bound [where t = filter_count_entry and df = status_frame5
          and col = "''status''" and s = s5 and L = ?L and rb = counter_rng
          and entity = "''traffic stop''" and a = a5 and r = 1 and qc = qc and r' = 2,
          THEN conjunct1, THEN mp])
      (intro conjI nvc s5 bnd)
  with nvc s5 bnd cd have one: "\<exists>a s qc r'. needs_value filter_count_entry
       \<and> getitem status_frame5 ''status'' = Inr s
       \<and> bind_single_v2 ?L counter_rng status_frame5 ''traffic stop'' ''status''
            a filter_count_entry 1 = Inr (Some qc, r')
       \<and> snd qc = ''(df['' @ quoted ''status'' @ ''] == '' @ quoted ''closed'' @ '').sum()''
       \<and> (\<exists>v. v \<noteq> NaN \<and> v \<in> set (cells s) \<and> count_list (cells s) v > 1
             \<and> value_question ?L ''traffic stop'' ''status'' a filter_count_entry v = Inr qc)"
    by (intro exI [of _ a5] exI [of _ s5] exI [of _ qc] exI [of _ 2]) simp
  \<comment> \<open>a question that v2 returns\<close>
  have "map_sum id (\<lambda>p. map p_id (fst p))
          (generate_questions_for_dataset_v2 ?L counter_rng status_frame5 ''tickets.csv'' 0)
        = Inr [''tickets_filter_show_all_001'', ''tickets_filter_show_all_simple_002'',
               ''tickets_filter_count_003'', ''tickets_value_counts_percentage_004'',
               ''tickets_value_counts_basic_005'', ''tickets_value_counts_most_common_006'',
               ''tickets_count_multiple_values_007'', ''tickets_groupby_count_008'']"
    by code_simp
  then obtain qs r1 where g: "generate_questions_for_dataset_v2 ?L counter_rng status_frame5
        ''tickets.csv'' 0 = Inr (qs, r1)"
    and ids: "map p_id qs
        = [''tickets_filter_show_all_001'', ''tickets_filter_show_all_simple_002'',
               ''tickets_filter_count_003'', ''tickets_value_counts_percentage_004'',
               ''tickets_value_counts_basic_005'', ''tickets_value_counts_most_common_006'',
               ''tickets_count_multiple_values_007'', ''tickets_groupby_count_008'']"
    by (cases "generate_questions_for_dataset_v2 ?L counter_rng status_frame5 ''tickets.csv'' 0")
      auto
  define q where "q = qs ! 2"
  have "length (map p_id qs) = 8" unfolding ids by simp
  then have len: "length qs = 8" by simp
  then have qin: "q \<in> set qs" unfolding q_def by simp
  have "p_id q = map p_id qs ! 2" unfolding q_def using len by simp
  with ids have qid: "p_id q = ''tickets_filter_count_003''" by simp
  have "\<exists>col' a' t' n r2. analyze_column_v2 status_frame5 col' = Inr a'
          \<and> hd (fst (p_dataPreview q)) = col'
          \<and> t' \<in> set generate_question_templates_v2
          \<and> (requires_other t' = None \<longrightarrow>
                (\<exists>r3. bind_single_v2 ?L counter_rng status_frame5 (entity_type_v2 ''tickets.csv'')
                         col' a' t' r2 = Inr (Some (p_question q, p_code q), r3))
                \<and> p_id q = replace ''tickets.csv'' ''.csv'' [] @ ''_'' @ t_id t' @ ''_''
                              @ zero_pad3 n)"
    by (rule repeated_value_bound [where L = ?L and rb = counter_rng and df = status_frame5
          and dataset_name = "''tickets.csv''" and ?r0.0 = 0 and qs = qs and ?r1.0 = r1
          and q = q, THEN conjunct2, THEN conjunct1, THEN mp])
      (intro conjI g qin)
  then obtain col' a' where a': "analyze_column_v2 status_frame5 col' = Inr a'"
    and hd': "hd (fst (p_dataPreview q)) = col'" by (elim exE conjE)
  have two: "\<exists>qs r1 q col. generate_questions_for_dataset_v2 ?L counter_rng
                         status_frame5 ''tickets.csv'' 0 = Inr (qs, r1)
       \<and> q \<in> set qs \<and> p_id q = ''tickets_filter_count_003''
       \<and> hd (fst (p_dataPreview q)) = col
       \<and> (\<exists>a. analyze_column_v2 status_frame5 col = Inr a)"
    using g qin qid hd' a'
    by (intro exI [of _ qs] exI [of _ r1] exI [of _ q] exI [of _ col']) auto
  \<comment> \<open>v2 on a column without repeated values\<close>
  let ?sn = "\<lparr>dtype = Object, cells = [Str ''Ann'', Str ''Bob'']\<rparr>"
  have sn: "getitem names_frame ''name'' = Inr ?sn"
    by (simp add: getitem_def names_frame_def)
  have once: "\<forall>v. v \<noteq> NaN \<longrightarrow> count_list (cells ?sn) v \<le> 1" by simp
  have "questions_for_template_v2 ?L counter_rng names_frame ''people.csv''
            ''record'' [] ''name'' \<lparr>name = ''name'', a_dtype = Object, unique_count = 2,
               null_count = 0, sample_values = [Str ''Ann'', Str ''Bob''],
               flags = categorical_flags_v2 1\<rparr> filter_count_entry (1, 0)
          = Inr ([], (1, 0))"
    by (rule repeated_value_bound [where t = filter_count_entry and df = names_frame
          and col = "''name''" and s = ?sn and L = ?L and rb = counter_rng
          and dataset_name = "''people.csv''" and entity = "''record''" and ca = "[]"
          and st = "(1, 0)",
          THEN conjunct2, THEN conjunct2, THEN conjunct1, THEN mp])
      (intro conjI nvc roc sn once)
  with nvc roc sn have three: "\<exists>s. needs_value filter_count_entry
       \<and> requires_other filter_count_entry = None
       \<and> getitem names_frame ''name'' = Inr s
       \<and> list_all (\<lambda>v. count_list (cells s) v = 1) (cells s)
       \<and> questions_for_template_v2 ?L counter_rng names_frame ''people.csv''
            ''record'' [] ''name'' \<lparr>name = ''name'', a_dtype = Object, unique_count = 2,
               null_count = 0, sample_values = [Str ''Ann'', Str ''Bob''],
               flags = categorical_flags_v2 1\<rparr> filter_count_entry (1, 0)
          = Inr ([], (1, 0))"
    by (intro exI [of _ ?sn]) simp
  \<comment> \<open>pass 1 on the same column\<close>
  have "map_sum id (\<lambda>a. map_sum id (map_option code)
            (bind_single ?L ''people.csv'' ''people'' ''name'' a filter_equals_entry))
          (analyze_column names_frame ''name'')
        = Inr (Inr (Some (''len(df[df['' @ quoted ''name'' @ ''] == ''
                     @ quoted (quoted ''Ann'') @ ''])'')))"
    by code_simp
  then obtain a1 b where a1: "analyze_column names_frame ''name'' = Inr a1"
    and b: "bind_single ?L ''people.csv'' ''people'' ''name'' a1 filter_equals_entry
              = Inr (Some b)"
    and cb: "code b = ''len(df[df['' @ quoted ''name'' @ ''] == ''
                     @ quoted (quoted ''Ann'') @ ''])''"
    by (cases "analyze_column names_frame ''name''")
      (auto simp add: map_sum_def split: sum.splits)
  have "\<exists>v vs num. dropna ?sn = v # vs \<and> flags a1 ''is_numeric'' = Some num
          \<and> format (code_template filter_equals_entry)
               [(''column'', ''name''),
                (''value'', if num then py_str ?L v else quoted (py_str ?L v))]
             = Inr (code b)"
    by (rule repeated_value_bound [where t = filter_equals_entry and df = names_frame
          and col = "''name''" and s = ?sn and L = ?L and dataset_name = "''people.csv''"
          and entity = "''people''" and ?a1.0 = a1 and b = b,
          THEN conjunct2, THEN conjunct2, THEN conjunct2, THEN conjunct1, THEN mp])
      (intro conjI nve a1 sn b)
  then have "hd (dropna ?sn) = Str ''Ann''" by (simp add: dropna_def)
  with nve a1 sn b cb have four: "\<exists>a1 s b. needs_value filter_equals_entry
       \<and> analyze_column names_frame ''name'' = Inr a1
       \<and> getitem names_frame ''name'' = Inr s
       \<and> bind_single ?L ''people.csv'' ''people'' ''name'' a1 filter_equals_entry
            = Inr (Some b)
       \<and> hd (dropna s) = Str ''Ann'' \<and> count_list (cells s) (Str ''Ann'') = 1
       \<and> code b = ''len(df[df['' @ quoted ''name'' @ ''] == ''
                     @ quoted (quoted ''Ann'') @ ''])''"
    by (intro exI [of _ a1] exI [of _ ?sn] exI [of _ b]) simp
  \<comment> \<open>pass 1 on a column without values\<close>
  let ?sb = "\<lparr>dtype = Object, cells = [NaN, NaN]\<rparr>"
  have sb: "getitem blank_frame ''note'' = Inr ?sb"
    by (simp add: getitem_def blank_frame_def)
  have db: "dropna ?sb = []" by (simp add: dropna_def)
  obtain ab where ab: "analyze_column blank_frame ''note'' = Inr ab"
    using analyze_column_total(1) [OF sb] by (auto simp add: len_df_def blank_frame_def)
  have "bind_single ?L ''notes.csv'' ''note'' ''note'' ab filter_equals_entry = Inr None"
    by (rule repeated_value_bound [where t = filter_equals_entry and df = blank_frame
          and col = "''note''" and s = ?sb and L = ?L and dataset_name = "''notes.csv''"
          and entity = "''note''" and ?a1.0 = ab,
          THEN conjunct2, THEN conjunct2, THEN conjunct2, THEN conjunct2, THEN mp])
      (intro conjI nve ab sb db)
  with ab sb db have five: "\<exists>a1 s. analyze_column blank_frame ''note'' = Inr a1
       \<and> getitem blank_frame ''note'' = Inr s \<and> dropna s = []
       \<and> bind_single ?L ''notes.csv'' ''note'' ''note'' a1 filter_equals_entry = Inr None"
    by (intro exI [of _ ab] exI [of _ ?sb]) simp
  from one two three four five show ?thesis by (intro conjI)
qed


text \<open>
  C2 as stated fails for pass 1: no value of the column \<open>name\<close> occurs more than once, and
  the template \<open>filter_equals\<close>, which needs a value, is not skipped but bound to \<open>Ann\<close>.
\<close>

theorem unrepeated_value_bound_counterexample:
  "distinct [Str ''Ann'', Str ''Bob'']
   \<and> getitem names_frame ''name'' = Inr \<lparr>dtype = Object, cells = [Str ''Ann'', Str ''Bob'']\<rparr>
   \<and> needs_value filter_equals_entry \<and> t_id filter_equals_entry = ''filter_equals''
   \<and> map_sum id
       (map (\<lambda>q. (template_id q, column q,
                   code q = ''len(df[df['' @ quoted ''name'' @ ''] == ''
                              @ quoted (quoted ''Ann'') @ ''])'')))
       (generate_questions_for_dataset (lib_with (Inl [])) names_frame ''people.csv'')
     = Inr [(''value_counts_basic'', ''name'', False), (''value_counts_top'', ''name'', False),
            (''unique_count'', ''name'', False), (''filter_equals'', ''name'', True),
            (''string_contains'', ''name'', False)]"
  by code_simp


subsection \<open>Two runs with generators that draw alike\<close>

lemma random_choice_rel:
  assumes sim: "\<And>r1 r2 n. R r1 r2 \<Longrightarrow>
      fst (rb1 r1 n) = fst (rb2 r2 n) \<and> R (snd (rb1 r1 n)) (snd (rb2 r2 n))"
    and seed: "R r1 r2"
  shows "rel_sum (=) (rel_prod (=) R) (random_choice rb1 r1 seq) (random_choice rb2 r2 seq)"
proof -
  obtain j s1 where d1: "rb1 r1 (length seq) = (j, s1)" by (cases "rb1 r1 (length seq)")
  obtain j' s2 where d2: "rb2 r2 (length seq) = (j', s2)" by (cases "rb2 r2 (length seq)")
  from sim [OF seed, of "length seq"] d1 d2 have "j = j'" and "R s1 s2" by simp_all
  with d1 d2 show ?thesis by (simp add: random_choice_def)
qed

lemma random_sample2_rel:
  assumes sim: "\<And>r1 r2 n. R r1 r2 \<Longrightarrow>
      fst (rb1 r1 n) = fst (rb2 r2 n) \<and> R (snd (rb1 r1 n)) (snd (rb2 r2 n))"
    and seed: "R r1 r2"
  shows "rel_sum (=) (rel_prod (=) R) (random_sample2 rb1 r1 pop) (random_sample2 rb2 r2 pop)"
proof -
  let ?n = "length pop"
  obtain j s1 where d1: "rb1 r1 ?n = (j, s1)" by (cases "rb1 r1 ?n")
  obtain j' s2 where d2: "rb2 r2 ?n = (j', s2)" by (cases "rb2 r2 ?n")
  from sim [OF seed, of ?n] d1 d2 have j: "j = j'" and s: "R s1 s2" by simp_all
  obtain k t1 where e1: "rb1 s1 (?n - 1) = (k, t1)" by (cases "rb1 s1 (?n - 1)")
  obtain k' t2 where e2: "rb2 s2 (?n - 1) = (k', t2)" by (cases "rb2 s2 (?n - 1)")
  from sim [OF s, of "?n - 1"] e1 e2 have "k = k'" and "R t1 t2" by simp_all
  with j d1 d2 e1 e2 show ?thesis by (simp add: random_sample2_def Let_def)
qed

lemma draw_then_rel:
  assumes "rel_sum (=) (rel_prod (=) R) m1 m2"
  shows "rel_sum (=) (rel_prod (=) R)
      (case m1 of Inl e \<Rightarrow> Inl e
       | Inr (v, r') \<Rightarrow> (case k v of Inl e \<Rightarrow> Inl e | Inr qc \<Rightarrow> Inr (Some qc, r')))
      (case m2 of Inl e \<Rightarrow> Inl e
       | Inr (v, r') \<Rightarrow> (case k v of Inl e \<Rightarrow> Inl e | Inr qc \<Rightarrow> Inr (Some qc, r')))"
  using assms by (cases m1; cases m2) (auto split: sum.splits)

lemma bind_single_v2_rel:
  assumes sim: "\<And>r1 r2 n. R r1 r2 \<Longrightarrow>
      fst (rb1 r1 n) = fst (rb2 r2 n) \<and> R (snd (rb1 r1 n)) (snd (rb2 r2 n))"
    and seed: "R r1 r2"
  shows "rel_sum (=) (rel_prod (=) R)
      (bind_single_v2 L rb1 df entity col a t r1) (bind_single_v2 L rb2 df entity col a t r2)"
proof -
  note c = draw_then_rel [OF random_choice_rel [of R rb1 rb2, OF sim seed]]
  note s = draw_then_rel [OF random_sample2_rel [of R rb1 rb2, OF sim seed]]
  show ?thesis
    unfolding bind_single_v2_def
    by (auto simp add: seed c s split: sum.splits option.splits)
qed


lemma collect_st_rel:
  assumes body: "\<And>x s1 s2. x \<in> set xs \<Longrightarrow> S s1 s2 \<Longrightarrow>
      rel_sum (=) (rel_prod (=) S) (f x s1) (g x s2)"
    and st: "S s1 s2"
  shows "rel_sum (=) (rel_prod (=) S) (collect_st f xs s1) (collect_st g xs s2)"
  using assms
proof (induction xs arbitrary: s1 s2)
  case Nil
  then show ?case by simp
next
  case (Cons x xs)
  have head: "rel_sum (=) (rel_prod (=) S) (f x s1) (g x s2)"
    using Cons.prems by simp
  show ?case
  proof (cases "f x s1")
    case (Inl e)
    with head show ?thesis by (cases "g x s2") auto
  next
    case fx: (Inr p)
    obtain ys t1 where p: "p = (ys, t1)" by (cases p)
    from head fx p obtain t2 where gx: "g x s2 = Inr (ys, t2)" and t: "S t1 t2"
      by (cases "g x s2") auto
    have tail: "rel_sum (=) (rel_prod (=) S) (collect_st f xs t1) (collect_st g xs t2)"
      using Cons.IH [OF _ t] Cons.prems(1) by simp
    show ?thesis
    proof (cases "collect_st f xs t1")
      case (Inl e)
      with tail fx gx p show ?thesis by (cases "collect_st g xs t2") auto
    next
      case (Inr p')
      obtain zs u1 where p': "p' = (zs, u1)" by (cases p')
      from tail Inr p' obtain u2 where "collect_st g xs t2 = Inr (zs, u2)" and "S u1 u2"
        by (cases "collect_st g xs t2") auto
      with fx gx p Inr p' show ?thesis by simp
    qed
  qed
qed

lemma questions_for_template_v2_rel:
  assumes sim: "\<And>r1 r2 n. R r1 r2 \<Longrightarrow>
      fst (rb1 r1 n) = fst (rb2 r2 n) \<and> R (snd (rb1 r1 n)) (snd (rb2 r2 n))"
    and st: "rel_prod (=) R st1 st2"
  shows "rel_sum (=) (rel_prod (=) (rel_prod (=) R))
      (questions_for_template_v2 L rb1 df dn entity ca col a t st1)
      (questions_for_template_v2 L rb2 df dn entity ca col a t st2)"
proof -
  obtain n r1 where s1: "st1 = (n, r1)" by (cases st1)
  with st obtain r2 where s2: "st2 = (n, r2)" and seed: "R r1 r2" by (cases st2) auto
  note b = bind_single_v2_rel [of R rb1 rb2 r1 r2 L df entity col a t, OF sim seed]
  show ?thesis
  proof (cases "bind_single_v2 L rb1 df entity col a t r1")
    case (Inl e)
    with b have "bind_single_v2 L rb2 df entity col a t r2 = Inl e"
      by (cases "bind_single_v2 L rb2 df entity col a t r2") auto
    with Inl show ?thesis
      by (auto simp add: questions_for_template_v2_def s1 s2 seed
          split: option.splits sum.splits)
  next
    case (Inr p)
    obtain o1 t1 where p: "p = (o1, t1)" by (cases p)
    with b Inr obtain t2 where "bind_single_v2 L rb2 df entity col a t r2 = Inr (o1, t2)"
      and "R t1 t2"
      by (cases "bind_single_v2 L rb2 df entity col a t r2") auto
    with Inr p show ?thesis
      by (auto simp add: questions_for_template_v2_def s1 s2 seed
          split: option.splits sum.splits)
  qed
qed

lemma questions_for_column_v2_rel:
  assumes sim: "\<And>r1 r2 n. R r1 r2 \<Longrightarrow>
      fst (rb1 r1 n) = fst (rb2 r2 n) \<and> R (snd (rb1 r1 n)) (snd (rb2 r2 n))"
    and st: "rel_prod (=) R st1 st2"
  shows "rel_sum (=) (rel_prod (=) (rel_prod (=) R))
      (questions_for_column_v2 L rb1 df dn entity ca x st1)
      (questions_for_column_v2 L rb2 df dn entity ca x st2)"
proof (cases "get_flag (snd x) ''is_identifier''")
  case True
  with st show ?thesis by (simp add: questions_for_column_v2_def)
next
  case False
  have "rel_sum (=) (rel_prod (=) (rel_prod (=) R))
      (collect_st (questions_for_template_v2 L rb1 df dn entity ca (fst x) (snd x))
         generate_question_templates_v2 st1)
      (collect_st (questions_for_template_v2 L rb2 df dn entity ca (fst x) (snd x))
         generate_question_templates_v2 st2)"
    by (rule collect_st_rel [OF questions_for_template_v2_rel [of R rb1 rb2, OF sim] st])
  with False show ?thesis by (simp add: questions_for_column_v2_def)
qed

text \<open>
  C9. Two runs of the v2 synthesis on the same table and data set name, each with its own
  random generator, return the same ordered sequence of questions, or raise the same
  exception, whenever the two generators start in related states and related states give
  equal draws and related next states. Two generators seeded alike are such a pair; the
  script itself never seeds the generator.
\<close>

theorem synthesis_deterministic:
  assumes sim: "\<forall>r1 r2 n. R r1 r2 \<longrightarrow>
      fst (rb1 r1 n) = fst (rb2 r2 n) \<and> R (snd (rb1 r1 n)) (snd (rb2 r2 n))"
    and seed: "R r1 r2"
  shows "rel_sum (=) (rel_prod (=) R)
           (generate_questions_for_dataset_v2 L rb1 df dataset_name r1)
           (generate_questions_for_dataset_v2 L rb2 df dataset_name r2)
       \<and> map_sum id fst (generate_questions_for_dataset_v2 L rb1 df dataset_name r1)
         = map_sum id fst (generate_questions_for_dataset_v2 L rb2 df dataset_name r2)"
proof -
  from sim have sim': "\<And>r1 r2 n. R r1 r2 \<Longrightarrow>
      fst (rb1 r1 n) = fst (rb2 r2 n) \<and> R (snd (rb1 r1 n)) (snd (rb2 r2 n))"
    by blast
  let ?g1 = "generate_questions_for_dataset_v2 L rb1 df dataset_name r1"
  let ?g2 = "generate_questions_for_dataset_v2 L rb2 df dataset_name r2"
  have rel: "rel_sum (=) (rel_prod (=) R) ?g1 ?g2"
  proof (cases "analyze_all analyze_column_v2 df (columns df) []")
    case (Inl e)
    then show ?thesis by (simp add: generate_questions_for_dataset_v2_def)
  next
    case (Inr ca)
    let ?e = "entity_type_v2 dataset_name"
    have st: "rel_prod (=) R (1::nat, r1) (1, r2)" using seed by simp
    have c: "rel_sum (=) (rel_prod (=) (rel_prod (=) R))
        (collect_st (questions_for_column_v2 L rb1 df dataset_name ?e ca) ca (1, r1))
        (collect_st (questions_for_column_v2 L rb2 df dataset_name ?e ca) ca (1, r2))"
      by (rule collect_st_rel [OF questions_for_column_v2_rel [of R rb1 rb2, OF sim'] st])
    show ?thesis
    proof (cases "collect_st (questions_for_column_v2 L rb1 df dataset_name ?e ca) ca (1, r1)")
      case (Inl e)
      with c have "collect_st (questions_for_column_v2 L rb2 df dataset_name ?e ca) ca (1, r2)
          = Inl e"
        by (cases "collect_st (questions_for_column_v2 L rb2 df dataset_name ?e ca) ca (1, r2)")
          auto
      with Inl Inr show ?thesis by (simp add: generate_questions_for_dataset_v2_def)
    next
      case r: (Inr p)
      obtain qs n t1 where p: "p = (qs, (n, t1))" by (cases p) auto
      with c r obtain t2
        where "collect_st (questions_for_column_v2 L rb2 df dataset_name ?e ca) ca (1, r2)
          = Inr (qs, (n, t2))" and "R t1 t2"
        by (cases "collect_st (questions_for_column_v2 L rb2 df dataset_name ?e ca) ca (1, r2)")
          auto
      with r p Inr show ?thesis by (simp add: generate_questions_for_dataset_v2_def)
    qed
  qed
  then have "map_sum id fst ?g1 = map_sum id fst ?g2"
    by (cases ?g1; cases ?g2) auto
  with rel show ?thesis by simp
qed

theorem synthesis_deterministic_witness:
  "(\<lambda>r1 r2. r1 = fst r2) 0 (0, 0 :: nat)
   \<and> (\<exists>qs. map_sum id fst (generate_questions_for_dataset_v2 (lib_with (Inl [])) counter_rng
                 status_frame5 ''tickets.csv'' 0) = Inr qs
         \<and> map_sum id fst (generate_questions_for_dataset_v2 (lib_with (Inl [])) tally_rng
                 status_frame5 ''tickets.csv'' (0, 0)) = Inr qs
         \<and> length qs = 8)"
proof -
  let ?L = "lib_with (Inl [])"
  let ?R = "\<lambda>(r1 :: nat) (r2 :: nat \<times> nat). r1 = fst r2"
  have sim: "\<forall>r1 r2 n. ?R r1 r2 \<longrightarrow>
      fst (counter_rng r1 n) = fst (tally_rng r2 n)
      \<and> ?R (snd (counter_rng r1 n)) (snd (tally_rng r2 n))"
    by (simp add: counter_rng_def tally_rng_def)
  have seed: "?R 0 (0, 0)" by simp
  from synthesis_deterministic [of ?R counter_rng tally_rng 0 "(0, 0)" ?L status_frame5
      "''tickets.csv''", OF sim seed]
  have eq: "map_sum id fst (generate_questions_for_dataset_v2 ?L counter_rng
                 status_frame5 ''tickets.csv'' 0)
      = map_sum id fst (generate_questions_for_dataset_v2 ?L tally_rng
                 status_frame5 ''tickets.csv'' (0, 0))"
    by (rule conjunct2)
  have "map_sum id (\<lambda>p. length (fst p))
          (generate_questions_for_dataset_v2 ?L counter_rng status_frame5 ''tickets.csv'' 0)
        = Inr 8"
    by code_simp
  then obtain qs where g: "map_sum id fst (generate_questions_for_dataset_v2 ?L counter_rng
                 status_frame5 ''tickets.csv'' 0) = Inr qs" and n: "length qs = 8"
    by (cases "generate_questions_for_dataset_v2 ?L counter_rng status_frame5 ''tickets.csv'' 0")
      auto
  from g n eq seed show ?thesis by auto
qed

end
